theory Spec2Isabelle
  imports Main
begin

section \<open>Python values and exceptions\<close>

text \<open>
  The module \<^verbatim>\<open>datasette/facets.py\<close> is embedded function by function.
  A Python \<^verbatim>\<open>str\<close> is a \<^typ>\<open>string\<close>; its characters are read as the code points
  U+0000 to U+00FF. Every \<^verbatim>\<open>raise\<close> of the source, and every exception raised by
  the Python operations it uses, is a value of \<open>error\<close>; a function that can raise
  returns \<open>error + 'a\<close> with \<open>Inl\<close> the exception.
\<close>

datatype error =
    TypeError
  | KeyError
  | IndexError
  | AssertionError
  | AttributeError
  | UnboundLocalError
  | JSONDecodeError
  | NotImplementedError
  | QueryInterrupted
  | OperationalError

text \<open>
  Facet configurations are JSON documents: they come from the table metadata
  (parsed JSON or YAML) and from \<^verbatim>\<open>json.loads\<close> of a query-string value. A dict is
  an association list in insertion order (floating-point numbers are left out).
\<close>

datatype json =
    JNull
  | JBool bool
  | JInt int
  | JStr string
  | JArr "json list"
  | JObj "(string \<times> json) list"

text \<open>Python truthiness, as \<^verbatim>\<open>x or y\<close> and \<^verbatim>\<open>if x\<close> read it.\<close>

fun truthy :: "json \<Rightarrow> bool" where
  "truthy JNull = False"
| "truthy (JBool b) = b"
| "truthy (JInt i) = (i \<noteq> 0)"
| "truthy (JStr s) = (s \<noteq> [])"
| "truthy (JArr xs) = (xs \<noteq> [])"
| "truthy (JObj kvs) = (kvs \<noteq> [])"

text \<open>\<^verbatim>\<open>s.startswith(p)\<close>\<close>

definition startswith :: "string \<Rightarrow> string \<Rightarrow> bool" where
  "startswith s p = (take (length p) s = p)"

text \<open>\<^verbatim>\<open>d[k]\<close> on a configuration: \<^verbatim>\<open>KeyError\<close> when the key is absent,
  \<^verbatim>\<open>TypeError\<close> when the value is not subscriptable by a string.\<close>

fun getitem :: "json \<Rightarrow> string \<Rightarrow> error + json" where
  "getitem (JObj kvs) k = (case map_of kvs k of None \<Rightarrow> Inl KeyError | Some v \<Rightarrow> Inr v)"
| "getitem _ k = Inl TypeError"

text \<open>\<^verbatim>\<open>d.get(k)\<close>: \<^verbatim>\<open>None\<close> when the key is absent; only a dict has the method.\<close>

fun dict_get :: "json \<Rightarrow> string \<Rightarrow> error + json" where
  "dict_get (JObj kvs) k = (case map_of kvs k of None \<Rightarrow> Inr JNull | Some v \<Rightarrow> Inr v)"
| "dict_get _ k = Inl AttributeError"

section \<open>The request\<close>

text \<open>
  Of the request the module reads its path and its query string, the latter only
  through \<^verbatim>\<open>urllib.parse\<close>. \<open>query_pairs\<close> is
  \<^verbatim>\<open>parse_qsl(request.query_string, keep_blank_values=True)\<close>, the key-value pairs in
  the order of the query string; \<open>parse_qs\<close> groups them as the standard library does:
  one entry per key, in the order of each key's first occurrence, holding the key's
  values in order.
\<close>

record request =
  path :: string
  query_pairs :: "(string \<times> string) list"

fun parse_qs_add :: "(string \<times> string list) list \<Rightarrow> string \<Rightarrow> string \<Rightarrow> (string \<times> string list) list" where
  "parse_qs_add [] name v = [(name, [v])]"
| "parse_qs_add ((k, vs) # rest) name v =
     (if k = name then (k, vs @ [v]) # rest else (k, vs) # parse_qs_add rest name v)"

fun parse_qs_from :: "(string \<times> string list) list \<Rightarrow> (string \<times> string) list \<Rightarrow> (string \<times> string list) list" where
  "parse_qs_from parsed_result [] = parsed_result"
| "parse_qs_from parsed_result ((name, v) # pairs) = parse_qs_from (parse_qs_add parsed_result name v) pairs"

definition parse_qs :: "request \<Rightarrow> (string \<times> string list) list" where
  "parse_qs req = parse_qs_from [] (query_pairs req)"

section \<open>\<^verbatim>\<open>load_facet_configs\<close>\<close>

text \<open>
  The returned dictionary maps a facet type to its list of
  \<^verbatim>\<open>{"source": ..., "config": ...}\<close> entries. The function only ever looks a type up or
  appends to its list, so the dictionary is a map.
\<close>

record source_and_config =
  source :: string
  config :: json

type_synonym facet_configs = "string \<rightharpoonup> source_and_config list"

text \<open>\<^verbatim>\<open>facet_configs.setdefault(type, []).append(entry)\<close>\<close>

definition setdefault_append :: "facet_configs \<Rightarrow> string \<Rightarrow> source_and_config \<Rightarrow> facet_configs" where
  "setdefault_append facet_configs ty entry =
     facet_configs(ty \<mapsto> (case facet_configs ty of None \<Rightarrow> [] | Some l \<Rightarrow> l) @ [entry])"

text \<open>
  \<^verbatim>\<open>metadata_config.items()[0]\<close>: in Python 3 \<^verbatim>\<open>dict.items()\<close> is a view, and
  subscripting a view raises \<^verbatim>\<open>TypeError\<close> whatever the dict holds. (The module is
  Python 3: it uses \<^verbatim>\<open>async def\<close> and \<^verbatim>\<open>urllib.parse\<close>.)
\<close>

definition dict_items_getitem :: "(string \<times> json) list \<Rightarrow> nat \<Rightarrow> error + (string \<times> json)" where
  "dict_items_getitem kvs i = Inl TypeError"

text \<open>
  The local variable \<^verbatim>\<open>type\<close> is assigned in both loops and read in the second, so
  it is part of the loop state: \<open>None\<close> while it is unbound. It is local to the function
  (it is assigned there), so reading it unbound raises \<^verbatim>\<open>UnboundLocalError\<close>; the
  builtin of the same name is never consulted.

  One round of the loop over \<^verbatim>\<open>metadata_facets\<close> (lines 27 to 40). An entry that is
  neither a string nor a dict has no \<^verbatim>\<open>values\<close> method.
\<close>

fun metadata_step :: "json \<Rightarrow> string option \<times> facet_configs \<Rightarrow> error + (string option \<times> facet_configs)" where
  "metadata_step (JStr s) (ty, facet_configs) =
     Inr (Some ''column'',
          setdefault_append facet_configs ''column''
            \<lparr>source = ''metadata'', config = JObj [(''simple'', JStr s)]\<rparr>)"
| "metadata_step (JObj kvs) (ty, facet_configs) =
     (if length kvs \<noteq> 1 then Inl AssertionError
      else case dict_items_getitem kvs 0 of
             Inl e \<Rightarrow> Inl e
           | Inr (t, metadata_config) \<Rightarrow>
               Inr (Some t,
                    setdefault_append facet_configs t
                      \<lparr>source = ''metadata'',
                       config = (case metadata_config of
                                   JStr s \<Rightarrow> JObj [(''simple'', JStr s)]
                                 | _ \<Rightarrow> metadata_config)\<rparr>))"
| "metadata_step _ (ty, facet_configs) = Inl AttributeError"

fun metadata_loop :: "json list \<Rightarrow> string option \<times> facet_configs \<Rightarrow> error + (string option \<times> facet_configs)" where
  "metadata_loop [] st = Inr st"
| "metadata_loop (metadata_config # rest) st =
     (case metadata_step metadata_config st of
        Inl e \<Rightarrow> Inl e
      | Inr st' \<Rightarrow> metadata_loop rest st')"

text \<open>
  The loop over the values of one key (lines 49 to 57). The configuration is computed
  first (and \<^verbatim>\<open>json.loads\<close> may raise); \<^verbatim>\<open>type\<close> is read after it.
  \<^verbatim>\<open>json.loads\<close> is the standard library's and is a parameter.
\<close>

definition value_config :: "(string \<Rightarrow> error + json) \<Rightarrow> string \<Rightarrow> error + json" where
  "value_config json_loads v =
     (if startswith v ''{'' then json_loads v else Inr (JObj [(''simple'', JStr v)]))"

fun values_loop :: "(string \<Rightarrow> error + json) \<Rightarrow> string option \<Rightarrow> string list \<Rightarrow> facet_configs \<Rightarrow> error + facet_configs" where
  "values_loop json_loads ty [] facet_configs = Inr facet_configs"
| "values_loop json_loads ty (v # vs) facet_configs =
     (case value_config json_loads v of
        Inl e \<Rightarrow> Inl e
      | Inr cfg \<Rightarrow>
          (case ty of
             None \<Rightarrow> Inl UnboundLocalError
           | Some t \<Rightarrow>
               values_loop json_loads ty vs
                 (setdefault_append facet_configs t \<lparr>source = ''request'', config = cfg\<rparr>)))"

text \<open>One round of the loop over \<^verbatim>\<open>qs_pairs.items()\<close> (lines 42 to 57).\<close>

definition key_step :: "(string \<Rightarrow> error + json) \<Rightarrow> string \<times> string list \<Rightarrow> string option \<times> facet_configs \<Rightarrow> error + (string option \<times> facet_configs)" where
  "key_step json_loads kv st =
     (case (kv, st) of ((key, vals), (ty, facet_configs)) \<Rightarrow>
        if startswith key ''_facet'' then
          let ty' = (if key = ''_facet'' then Some ''column''
                     else if startswith key ''_facet_'' then Some (drop (length ''_facet_'') key)
                     else ty)
          in (case values_loop json_loads ty' vals facet_configs of
                Inl e \<Rightarrow> Inl e
              | Inr facet_configs' \<Rightarrow> Inr (ty', facet_configs'))
        else Inr (ty, facet_configs))"

fun keys_loop :: "(string \<Rightarrow> error + json) \<Rightarrow> (string \<times> string list) list \<Rightarrow> string option \<times> facet_configs \<Rightarrow> error + (string option \<times> facet_configs)" where
  "keys_loop json_loads [] st = Inr st"
| "keys_loop json_loads (kv # rest) st =
     (case key_step json_loads kv st of
        Inl e \<Rightarrow> Inl e
      | Inr st' \<Rightarrow> keys_loop json_loads rest st')"

text \<open>
  \<^verbatim>\<open>table_metadata\<close> is \<^verbatim>\<open>None\<close> or a dict whose \<^verbatim>\<open>"facets"\<close> entry, when present,
  is a list: \<^verbatim>\<open>(table_metadata or {}).get("facets", [])\<close>.
\<close>

type_synonym table_metadata = "(string \<times> json list) list option"

definition metadata_facets :: "table_metadata \<Rightarrow> json list" where
  "metadata_facets table_metadata =
     (case table_metadata of
        None \<Rightarrow> []
      | Some d \<Rightarrow> (case map_of d ''facets'' of None \<Rightarrow> [] | Some l \<Rightarrow> l))"

definition load_facet_configs :: "(string \<Rightarrow> error + json) \<Rightarrow> request \<Rightarrow> table_metadata \<Rightarrow> error + facet_configs" where
  "load_facet_configs json_loads req table_metadata =
     (case metadata_loop (metadata_facets table_metadata) (None, Map.empty) of
        Inl e \<Rightarrow> Inl e
      | Inr st \<Rightarrow>
          (case keys_loop json_loads (parse_qs req) st of
             Inl e \<Rightarrow> Inl e
           | Inr (ty, facet_configs) \<Rightarrow> Inr facet_configs))"

section \<open>Rows, queries and the collaborators\<close>

text \<open>
  A value of a result row, as \<^verbatim>\<open>sqlite3\<close> hands it to Python: \<^verbatim>\<open>None\<close>, an
  \<^verbatim>\<open>int\<close>, a \<^verbatim>\<open>str\<close> or, for a BLOB, a \<^verbatim>\<open>bytes\<close> object, given by its bytes
  as characters. Floating-point numbers are left out: the text of a \<^verbatim>\<open>float\<close> is
  not modelled. \<open>py_str\<close> is Python's \<^verbatim>\<open>str()\<close> on such a value.
\<close>

datatype sqlite_value = SqlNull | SqlInt int | SqlText string | SqlBlob string

function str_nat :: "nat \<Rightarrow> string" where
  "str_nat n = (if n < 10 then [''0123456789'' ! n] else str_nat (n div 10) @ [''0123456789'' ! (n mod 10)])"
  by pat_completeness auto
termination
  by (relation "measure id") auto

definition str_int :: "int \<Rightarrow> string" where
  "str_int i = (if i < 0 then CHR ''-'' # str_nat (nat (- i)) else str_nat (nat i))"

text \<open>
  \<^verbatim>\<open>str()\<close> of a \<^verbatim>\<open>bytes\<close> object is its \<^verbatim>\<open>repr\<close>: the letter \<^verbatim>\<open>b\<close> and the bytes
  between quotes. The quote is the single quote, unless the bytes hold a single quote
  and no double quote; the quote and the backslash are escaped with a backslash, tab,
  line feed and carriage return are written \<^verbatim>\<open>\t\<close>, \<^verbatim>\<open>\n\<close> and \<^verbatim>\<open>\r\<close>, and every other
  byte below the space or from \<^verbatim>\<open>0x7f\<close> on is written \<^verbatim>\<open>\xNN\<close>.
\<close>

definition hex2 :: "nat \<Rightarrow> string" where
  "hex2 n = [''0123456789abcdef'' ! (n div 16 mod 16), ''0123456789abcdef'' ! (n mod 16)]"

definition repr_byte :: "char \<Rightarrow> char \<Rightarrow> string" where
  "repr_byte quote c =
     (if c = quote \<or> c = CHR 0x5C then [CHR 0x5C, c]
      else if c = CHR 0x09 then [CHR 0x5C, CHR ''t'']
      else if c = CHR 0x0A then [CHR 0x5C, CHR ''n'']
      else if c = CHR 0x0D then [CHR 0x5C, CHR ''r'']
      else if (of_char c :: nat) < 0x20 \<or> 0x7F \<le> (of_char c :: nat) then
        [CHR 0x5C, CHR ''x''] @ hex2 (of_char c)
      else [c])"

definition bytes_repr :: "string \<Rightarrow> string" where
  "bytes_repr b =
     (let quote = (if CHR 0x27 \<in> set b \<and> CHR 0x22 \<notin> set b then CHR 0x22 else CHR 0x27)
      in ''b'' @ [quote] @ concat (map (repr_byte quote) b) @ [quote])"

fun py_str :: "sqlite_value \<Rightarrow> string" where
  "py_str SqlNull = ''None''"
| "py_str (SqlInt i) = str_int i"
| "py_str (SqlText s) = s"
| "py_str (SqlBlob b) = bytes_repr b"

text \<open>
  A row is a \<^verbatim>\<open>sqlite3.Row\<close>: its cells in order, each under its column name.
  \<^verbatim>\<open>row["value"]\<close> raises \<^verbatim>\<open>IndexError\<close> when no cell has that name, \<^verbatim>\<open>r[0]\<close> when the
  row is empty. \<^verbatim>\<open>len(results)\<close> is the number of rows.
\<close>

type_synonym row = "(string \<times> sqlite_value) list"

record results =
  res_columns :: "string list"
  res_rows :: "row list"

definition row_getitem :: "row \<Rightarrow> string \<Rightarrow> error + sqlite_value" where
  "row_getitem r k = (case map_of r k of None \<Rightarrow> Inl IndexError | Some v \<Rightarrow> Inr v)"

definition row_first :: "row \<Rightarrow> error + sqlite_value" where
  "row_first r = (case r of [] \<Rightarrow> Inl IndexError | (k, v) # _ \<Rightarrow> Inr v)"

text \<open>\<^verbatim>\<open>xs[:k]\<close>: a negative \<open>k\<close> counts from the end.\<close>

definition slice_to :: "'a list \<Rightarrow> int \<Rightarrow> 'a list" where
  "slice_to xs k = (if 0 \<le> k then take (nat k) xs else take (length xs - nat (- k)) xs)"

text \<open>
  The SQL statements the module formats, one constructor per template, holding the
  values the template is filled with (\<^verbatim>\<open>escape_sqlite\<close> only quotes a name for the SQL
  text):
  \<^item> \<open>ColumnsSql sql\<close>: \<^verbatim>\<open>select * from ({sql}) limit 0\<close>
  \<^item> \<open>CountSql sql\<close>: \<^verbatim>\<open>select count(*) from ({sql})\<close>
  \<^item> \<open>ColumnSuggestSql column sql limit\<close>:
    \<^verbatim>\<open>select distinct {column} from ({sql}) where {column} is not null limit {limit}\<close>
  \<^item> \<open>ColumnFacetSql col sql limit\<close>:
    \<^verbatim>\<open>select {col} as value, count(*) as count from ({sql}) where {col} is not null
    group by {col} order by count desc limit {limit}\<close>
  \<^item> \<open>ArraySuggestSql column sql\<close>: \<^verbatim>\<open>select distinct json_type({column}) from ({sql})\<close>
  \<^item> \<open>ArrayFacetSql col sql limit\<close>:
    \<^verbatim>\<open>select j.value as value, count(*) as count from ({sql}) join json_each({col}) j
    group by j.value order by count desc limit {limit}\<close>
  \<^item> \<open>DateSuggestSql column sql\<close>:
    \<^verbatim>\<open>select date({column}) from ({sql}) where {column} glob "????-??-*" limit 100\<close>
  \<^item> \<open>DateFacetSql col sql limit\<close>:
    \<^verbatim>\<open>select date({col}) as value, count(*) as count from ({sql})
    where date({col}) is not null group by date({col}) order by count desc limit {limit}\<close>
  \<^item> \<open>ManyToManyFacetSql sql limit middle_table column_to_destination column_to_table table_pk\<close>:
    \<^verbatim>\<open>select {middle_table}.{column_to_destination} as value,
    count(distinct {middle_table}.{column_to_table}) as count from {middle_table}
    where {middle_table}.{column_to_table} in (select {table_pk} from ({sql}))
    group by {middle_table}.{column_to_destination} order by count desc limit {limit}\<close>
\<close>

datatype query =
    ColumnsSql string
  | CountSql string
  | ColumnSuggestSql string string int
  | ColumnFacetSql string string int
  | ArraySuggestSql string string
  | ArrayFacetSql string string int
  | DateSuggestSql string string
  | DateFacetSql string string int
  | ManyToManyFacetSql string int string string string string

text \<open>
  The foreign keys of a database, as \<^verbatim>\<open>get_all_foreign_keys()\<close> returns them: per
  table its incoming and outgoing keys, each a dict with the keys
  \<^verbatim>\<open>other_table\<close>, \<^verbatim>\<open>column\<close> and \<^verbatim>\<open>other_column\<close>.
\<close>

record foreign_key =
  fk_other_table :: string
  fk_column :: string
  fk_other_column :: string

record table_foreign_keys =
  incoming :: "foreign_key list"
  outgoing :: "foreign_key list"

type_synonym all_foreign_keys = "string \<rightharpoonup> table_foreign_keys"

text \<open>
  The Datasette instance \<^verbatim>\<open>self.ds\<close>, a collaborator that is not part of the module:
  \<^item> \<open>execute database query params custom_time_limit\<close> runs a statement and returns its
    rows or raises (\<^verbatim>\<open>QueryInterrupted\<close> when the time limit is hit,
    \<^verbatim>\<open>sqlite3.OperationalError\<close> for an SQL error);
  \<^item> the three settings read through \<^verbatim>\<open>ds.config(...)\<close>;
  \<^item> \<open>absolute_url\<close>, \<open>expand_foreign_keys\<close> (the labels found, keyed by column and value)
    and \<open>get_all_foreign_keys\<close> (of \<^verbatim>\<open>ds.databases[database]\<close>).
\<close>

record datasette =
  execute :: "string \<Rightarrow> query \<Rightarrow> sqlite_value list \<Rightarrow> int option \<Rightarrow> error + results"
  default_facet_size :: int
  facet_suggest_time_limit_ms :: int
  facet_time_limit_ms :: int
  absolute_url :: "request \<Rightarrow> string \<Rightarrow> string"
  expand_foreign_keys :: "string \<Rightarrow> string \<Rightarrow> string \<Rightarrow> sqlite_value list \<Rightarrow> (string \<times> sqlite_value) \<rightharpoonup> sqlite_value"
  get_all_foreign_keys :: "string \<Rightarrow> all_foreign_keys"

text \<open>
  The helpers the module imports from \<^verbatim>\<open>datasette.utils\<close> and from the standard
  library. The arguments to add or to remove are the items of the dict the source passes.
\<close>

record utils =
  json_loads :: "string \<Rightarrow> error + json"
  path_with_added_args :: "request \<Rightarrow> (string \<times> sqlite_value) list \<Rightarrow> string"
  path_with_removed_args :: "request \<Rightarrow> (string \<times> string) list \<Rightarrow> string"

text \<open>
  \<^verbatim>\<open>escape_sqlite(column)\<close> matches its argument against a regular expression, which
  raises \<^verbatim>\<open>TypeError\<close> unless the argument is a string.
\<close>

fun escape_sqlite_arg :: "json \<Rightarrow> error + string" where
  "escape_sqlite_arg (JStr s) = Inr s"
| "escape_sqlite_arg _ = Inl TypeError"

section \<open>\<^verbatim>\<open>class Facet\<close>\<close>

record facet =
  ds :: datasette
  request :: request
  database :: string
  sql :: string
  table :: "string option"
  params :: "sqlite_value list"
  metadata :: table_metadata
  row_count :: "int option"

text \<open>Truthiness of an argument that is \<^verbatim>\<open>None\<close> or a string.\<close>

definition str_truthy :: "string option \<Rightarrow> bool" where
  "str_truthy s = (s \<noteq> None \<and> s \<noteq> Some [])"

definition Facet_init :: "datasette \<Rightarrow> request \<Rightarrow> string \<Rightarrow> string option \<Rightarrow> string option \<Rightarrow> sqlite_value list option \<Rightarrow> table_metadata \<Rightarrow> int option \<Rightarrow> error + facet" where
  "Facet_init ds_arg request_arg database_arg sql_arg table_arg params_arg metadata_arg row_count_arg =
     (if \<not> (str_truthy table_arg \<or> str_truthy sql_arg) then Inl AssertionError
      else Inr \<lparr>ds = ds_arg, request = request_arg, database = database_arg,
                sql = (if str_truthy sql_arg then the sql_arg
                       else ''select * from ['' @ the table_arg @ '']''),
                table = table_arg,
                params = (case params_arg of None \<Rightarrow> [] | Some ps \<Rightarrow> ps),
                metadata = metadata_arg, row_count = row_count_arg\<rparr>)"

text \<open>\<^verbatim>\<open>get_configs\<close>: \<^verbatim>\<open>configs.get(self.type) or []\<close>.\<close>

definition get_configs :: "utils \<Rightarrow> string \<Rightarrow> facet \<Rightarrow> error + source_and_config list" where
  "get_configs u facet_type self =
     (case load_facet_configs (json_loads u) (request self) (metadata self) of
        Inl e \<Rightarrow> Inl e
      | Inr configs \<Rightarrow> Inr (case configs facet_type of None \<Rightarrow> [] | Some l \<Rightarrow> l))"

definition get_querystring_pairs :: "facet \<Rightarrow> (string \<times> string) list" where
  "get_querystring_pairs self = query_pairs (request self)"

definition get_columns :: "facet \<Rightarrow> error + string list" where
  "get_columns self =
     (case execute (ds self) (database self) (ColumnsSql (sql self)) (params self) None of
        Inl e \<Rightarrow> Inl e
      | Inr r \<Rightarrow> Inr (res_columns r))"

text \<open>
  \<^verbatim>\<open>get_row_count\<close>: the count given to the constructor, or else
  \<^verbatim>\<open>rows[0][0]\<close> of the count statement (which \<^verbatim>\<open>count(*)\<close> makes an integer). The
  source also stores the count in \<^verbatim>\<open>self.row_count\<close>; no method reads it twice.
\<close>

definition get_row_count :: "facet \<Rightarrow> error + int" where
  "get_row_count self =
     (case row_count self of
        Some n \<Rightarrow> Inr n
      | None \<Rightarrow>
          (case execute (ds self) (database self) (CountSql (sql self)) (params self) None of
             Inl e \<Rightarrow> Inl e
           | Inr r \<Rightarrow>
               (case res_rows r of
                  [] \<Rightarrow> Inl IndexError
                | r0 # _ \<Rightarrow>
                    (case row_first r0 of
                       Inl e \<Rightarrow> Inl e
                     | Inr (SqlInt n) \<Rightarrow> Inr n
                     | Inr _ \<Rightarrow> Inl TypeError))))"

text \<open>The dicts the facet classes return.\<close>

record suggested_facet =
  sf_name :: string
  sf_type :: "string option"
  sf_toggle_url :: string

record facet_value =
  fv_value :: sqlite_value
  fv_label :: sqlite_value
  fv_count :: sqlite_value
  fv_toggle_url :: string
  fv_selected :: bool

record facet_result =
  fr_name :: string
  fr_type :: string
  fr_hideable :: bool
  fr_toggle_url :: string
  fr_results :: "facet_value list"
  fr_truncated :: bool

text \<open>\<^verbatim>\<open>[c["config"]["simple"] for c in self.get_configs()]\<close>\<close>

fun simple_configs :: "source_and_config list \<Rightarrow> error + json list" where
  "simple_configs [] = Inr []"
| "simple_configs (c # cs) =
     (case getitem (config c) ''simple'' of
        Inl e \<Rightarrow> Inl e
      | Inr v \<Rightarrow> (case simple_configs cs of Inl e \<Rightarrow> Inl e | Inr vs \<Rightarrow> Inr (v # vs)))"

text \<open>\<^verbatim>\<open>config.get("column") or config["simple"]\<close>\<close>

definition config_column :: "json \<Rightarrow> error + json" where
  "config_column cfg =
     (case dict_get cfg ''column'' of
        Inl e \<Rightarrow> Inl e
      | Inr v \<Rightarrow> if truthy v then Inr v else getitem cfg ''simple'')"

section \<open>\<^verbatim>\<open>class ColumnFacet\<close>\<close>

text \<open>
  The loop of \<^verbatim>\<open>ColumnFacet.suggest\<close> over the columns (lines 142 to 179). Only
  \<^verbatim>\<open>QueryInterrupted\<close> is caught; any other exception of the probe leaves the method.
\<close>

fun ColumnFacet_suggest_loop :: "utils \<Rightarrow> facet \<Rightarrow> int \<Rightarrow> int \<Rightarrow> json list \<Rightarrow> string list \<Rightarrow> suggested_facet list \<Rightarrow> error + suggested_facet list" where
  "ColumnFacet_suggest_loop u self rc facet_size already_enabled [] suggested_facets = Inr suggested_facets"
| "ColumnFacet_suggest_loop u self rc facet_size already_enabled (col # cols) suggested_facets =
     (if JStr col \<in> set already_enabled then
        ColumnFacet_suggest_loop u self rc facet_size already_enabled cols suggested_facets
      else
        case execute (ds self) (database self) (ColumnSuggestSql col (sql self) (facet_size + 1))
               (params self) (Some (facet_suggest_time_limit_ms (ds self))) of
          Inl e \<Rightarrow>
            if e = QueryInterrupted then
              ColumnFacet_suggest_loop u self rc facet_size already_enabled cols suggested_facets
            else Inl e
        | Inr distinct_values \<Rightarrow>
            let num_distinct_values = int (length (res_rows distinct_values)) in
            if num_distinct_values \<noteq> 0
               \<and> num_distinct_values > 1
               \<and> num_distinct_values \<le> facet_size
               \<and> num_distinct_values < rc
            then
              ColumnFacet_suggest_loop u self rc facet_size already_enabled cols
                (suggested_facets @
                   [\<lparr>sf_name = col, sf_type = None,
                     sf_toggle_url = absolute_url (ds self) (request self)
                       (path_with_added_args u (request self) [(''_facet'', SqlText col)])\<rparr>])
            else
              ColumnFacet_suggest_loop u self rc facet_size already_enabled cols suggested_facets)"

definition ColumnFacet_suggest :: "utils \<Rightarrow> facet \<Rightarrow> error + suggested_facet list" where
  "ColumnFacet_suggest u self =
     (case get_row_count self of
        Inl e \<Rightarrow> Inl e
      | Inr rc \<Rightarrow>
          (case get_columns self of
             Inl e \<Rightarrow> Inl e
           | Inr cols \<Rightarrow>
               (case get_configs u ''column'' self of
                  Inl e \<Rightarrow> Inl e
                | Inr configs \<Rightarrow>
                    (case simple_configs configs of
                       Inl e \<Rightarrow> Inl e
                     | Inr already_enabled \<Rightarrow>
                         ColumnFacet_suggest_loop u self rc (default_facet_size (ds self))
                           already_enabled cols []))))"

text \<open>
  The loop over the rows kept (lines 230 to 250). \<open>ColumnFacet_value\<close> is the body
  for a row whose cells \<^verbatim>\<open>row["value"]\<close> and \<^verbatim>\<open>row["count"]\<close> are \<open>v\<close> and \<open>c\<close>:
  \<^verbatim>\<open>selected\<close>, the toggle path and the entry appended.
\<close>

definition ColumnFacet_value :: "utils \<Rightarrow> facet \<Rightarrow> (string \<times> string) list \<Rightarrow> string \<Rightarrow> ((string \<times> sqlite_value) \<rightharpoonup> sqlite_value) \<Rightarrow> sqlite_value \<Rightarrow> sqlite_value \<Rightarrow> facet_value" where
  "ColumnFacet_value u self qs_pairs col expanded v c =
     (let selected = ((col, py_str v) \<in> set qs_pairs);
          toggle_path =
            (if selected then path_with_removed_args u (request self) [(col, py_str v)]
             else path_with_added_args u (request self) [(col, v)])
      in \<lparr>fv_value = v,
          fv_label = (case expanded (col, v) of None \<Rightarrow> v | Some l \<Rightarrow> l),
          fv_count = c,
          fv_toggle_url = absolute_url (ds self) (request self) toggle_path,
          fv_selected = selected\<rparr>)"

fun ColumnFacet_rows_loop :: "utils \<Rightarrow> facet \<Rightarrow> (string \<times> string) list \<Rightarrow> string \<Rightarrow> ((string \<times> sqlite_value) \<rightharpoonup> sqlite_value) \<Rightarrow> row list \<Rightarrow> error + facet_value list" where
  "ColumnFacet_rows_loop u self qs_pairs col expanded [] = Inr []"
| "ColumnFacet_rows_loop u self qs_pairs col expanded (r # facet_rows) =
     (case row_getitem r ''value'' of
        Inl e \<Rightarrow> Inl e
      | Inr v \<Rightarrow>
          (case row_getitem r ''count'' of
             Inl e \<Rightarrow> Inl e
           | Inr c \<Rightarrow>
               (case ColumnFacet_rows_loop u self qs_pairs col expanded facet_rows of
                  Inl e \<Rightarrow> Inl e
                | Inr entries \<Rightarrow>
                    Inr (ColumnFacet_value u self qs_pairs col expanded v c # entries))))"

text \<open>\<^verbatim>\<open>[row["value"] for row in facet_rows]\<close>\<close>

fun row_values :: "row list \<Rightarrow> error + sqlite_value list" where
  "row_values [] = Inr []"
| "row_values (r # rs) =
     (case row_getitem r ''value'' of
        Inl e \<Rightarrow> Inl e
      | Inr v \<Rightarrow> (case row_values rs of Inl e \<Rightarrow> Inl e | Inr vs \<Rightarrow> Inr (v # vs)))"

text \<open>
  One round of the loop of \<^verbatim>\<open>ColumnFacet.facet_results\<close> over the configurations
  (lines 189 to 252). The state is the pair the method returns: the dict of results and
  the list of timed-out facets. The statement is formatted before the \<^verbatim>\<open>try\<close>; inside it
  only \<^verbatim>\<open>QueryInterrupted\<close> is caught, and only \<^verbatim>\<open>execute\<close> raises it.
\<close>

definition ColumnFacet_step :: "utils \<Rightarrow> facet \<Rightarrow> (string \<times> string) list \<Rightarrow> int \<Rightarrow> source_and_config \<Rightarrow> (string \<rightharpoonup> facet_result) \<times> string list \<Rightarrow> error + ((string \<rightharpoonup> facet_result) \<times> string list)" where
  "ColumnFacet_step u self qs_pairs facet_size source_and_config st =
     (case st of (facet_results, facets_timed_out) \<Rightarrow>
      (case config_column (config source_and_config) of
        Inl e \<Rightarrow> Inl e
      | Inr cj \<Rightarrow>
      (case escape_sqlite_arg cj of
        Inl e \<Rightarrow> Inl e
      | Inr col \<Rightarrow>
      (case execute (ds self) (database self) (ColumnFacetSql col (sql self) (facet_size + 1))
              (params self) (Some (facet_time_limit_ms (ds self))) of
        Inl e \<Rightarrow>
          if e = QueryInterrupted then Inr (facet_results, facets_timed_out @ [col]) else Inl e
      | Inr facet_rows_results \<Rightarrow>
          let facet_rows = slice_to (res_rows facet_rows_results) facet_size in
          (case (if str_truthy (table self) then
                   (case row_values facet_rows of
                      Inl e \<Rightarrow> Inl e
                    | Inr vals \<Rightarrow>
                        Inr (expand_foreign_keys (ds self) (database self) (the (table self)) col vals))
                 else Inr Map.empty) of
             Inl e \<Rightarrow> Inl e
           | Inr expanded \<Rightarrow>
               (case ColumnFacet_rows_loop u self qs_pairs col expanded facet_rows of
                  Inl e \<Rightarrow> Inl e
                | Inr facet_results_values \<Rightarrow>
                    Inr (facet_results(col \<mapsto>
                           \<lparr>fr_name = col,
                            fr_type = ''column'',
                            fr_hideable = (source source_and_config \<noteq> ''metadata''),
                            fr_toggle_url = path_with_removed_args u (request self) [(''_facet'', col)],
                            fr_results = facet_results_values,
                            fr_truncated = (int (length (res_rows facet_rows_results)) > facet_size)\<rparr>),
                         facets_timed_out)))))))"

fun ColumnFacet_loop :: "utils \<Rightarrow> facet \<Rightarrow> (string \<times> string) list \<Rightarrow> int \<Rightarrow> source_and_config list \<Rightarrow> (string \<rightharpoonup> facet_result) \<times> string list \<Rightarrow> error + ((string \<rightharpoonup> facet_result) \<times> string list)" where
  "ColumnFacet_loop u self qs_pairs facet_size [] st = Inr st"
| "ColumnFacet_loop u self qs_pairs facet_size (source_and_config # rest) st =
     (case ColumnFacet_step u self qs_pairs facet_size source_and_config st of
        Inl e \<Rightarrow> Inl e
      | Inr st' \<Rightarrow> ColumnFacet_loop u self qs_pairs facet_size rest st')"

definition ColumnFacet_facet_results :: "utils \<Rightarrow> facet \<Rightarrow> error + ((string \<rightharpoonup> facet_result) \<times> string list)" where
  "ColumnFacet_facet_results u self =
     (case get_configs u ''column'' self of
        Inl e \<Rightarrow> Inl e
      | Inr configs \<Rightarrow>
          ColumnFacet_loop u self (get_querystring_pairs self) (default_facet_size (ds self))
            configs (Map.empty, []))"

section \<open>\<^verbatim>\<open>class ArrayFacet\<close>\<close>

text \<open>\<^verbatim>\<open>tuple(r[0] for r in results.rows)\<close>\<close>

fun first_cells :: "row list \<Rightarrow> error + sqlite_value list" where
  "first_cells [] = Inr []"
| "first_cells (r # rs) =
     (case row_first r of
        Inl e \<Rightarrow> Inl e
      | Inr v \<Rightarrow> (case first_cells rs of Inl e \<Rightarrow> Inl e | Inr vs \<Rightarrow> Inr (v # vs)))"

text \<open>
  The loop of \<^verbatim>\<open>ArrayFacet.suggest\<close> (lines 264 to 298). The tuple of types is
  compared with the two tuples \<^verbatim>\<open>("array",)\<close> and \<^verbatim>\<open>("array", None)\<close>;
  \<^verbatim>\<open>QueryInterrupted\<close> and \<^verbatim>\<open>sqlite3.OperationalError\<close> are caught.
\<close>

fun ArrayFacet_suggest_loop :: "utils \<Rightarrow> facet \<Rightarrow> json list \<Rightarrow> string list \<Rightarrow> suggested_facet list \<Rightarrow> error + suggested_facet list" where
  "ArrayFacet_suggest_loop u self already_enabled [] suggested_facets = Inr suggested_facets"
| "ArrayFacet_suggest_loop u self already_enabled (col # cols) suggested_facets =
     (if JStr col \<in> set already_enabled then
        ArrayFacet_suggest_loop u self already_enabled cols suggested_facets
      else
        case execute (ds self) (database self) (ArraySuggestSql col (sql self))
               (params self) (Some (facet_suggest_time_limit_ms (ds self))) of
          Inl e \<Rightarrow>
            if e = QueryInterrupted \<or> e = OperationalError then
              ArrayFacet_suggest_loop u self already_enabled cols suggested_facets
            else Inl e
        | Inr rs \<Rightarrow>
            (case first_cells (res_rows rs) of
               Inl e \<Rightarrow>
                 if e = QueryInterrupted \<or> e = OperationalError then
                   ArrayFacet_suggest_loop u self already_enabled cols suggested_facets
                 else Inl e
             | Inr types \<Rightarrow>
                 if types = [SqlText ''array''] \<or> types = [SqlText ''array'', SqlNull] then
                   ArrayFacet_suggest_loop u self already_enabled cols
                     (suggested_facets @
                        [\<lparr>sf_name = col, sf_type = Some ''array'',
                          sf_toggle_url = absolute_url (ds self) (request self)
                            (path_with_added_args u (request self) [(''_facet_array'', SqlText col)])\<rparr>])
                 else
                   ArrayFacet_suggest_loop u self already_enabled cols suggested_facets))"

definition ArrayFacet_suggest :: "utils \<Rightarrow> facet \<Rightarrow> error + suggested_facet list" where
  "ArrayFacet_suggest u self =
     (case get_columns self of
        Inl e \<Rightarrow> Inl e
      | Inr cols \<Rightarrow>
          (case get_configs u ''array'' self of
             Inl e \<Rightarrow> Inl e
           | Inr configs \<Rightarrow>
               (case simple_configs configs of
                  Inl e \<Rightarrow> Inl e
                | Inr already_enabled \<Rightarrow> ArrayFacet_suggest_loop u self already_enabled cols [])))"

fun ArrayFacet_rows_loop :: "utils \<Rightarrow> facet \<Rightarrow> (string \<times> string) list \<Rightarrow> string \<Rightarrow> row list \<Rightarrow> error + facet_value list" where
  "ArrayFacet_rows_loop u self pairs col [] = Inr []"
| "ArrayFacet_rows_loop u self pairs col (r # facet_rows) =
     (case row_getitem r ''value'' of
        Inl e \<Rightarrow> Inl e
      | Inr rv \<Rightarrow>
          let v = py_str rv;
              selected = ((col @ ''__arraycontains'', v) \<in> set pairs);
              toggle_path =
                (if selected then
                   path_with_removed_args u (request self) [(col @ ''__arraycontains'', v)]
                 else
                   path_with_added_args u (request self) [(col @ ''__arraycontains'', SqlText v)])
          in (case row_getitem r ''count'' of
                Inl e \<Rightarrow> Inl e
              | Inr c \<Rightarrow>
                  (case ArrayFacet_rows_loop u self pairs col facet_rows of
                     Inl e \<Rightarrow> Inl e
                   | Inr entries \<Rightarrow>
                       Inr (\<lparr>fv_value = SqlText v,
                             fv_label = SqlText v,
                             fv_count = c,
                             fv_toggle_url = absolute_url (ds self) (request self) toggle_path,
                             fv_selected = selected\<rparr> # entries))))"

definition ArrayFacet_step :: "utils \<Rightarrow> facet \<Rightarrow> int \<Rightarrow> source_and_config \<Rightarrow> (string \<rightharpoonup> facet_result) \<times> string list \<Rightarrow> error + ((string \<rightharpoonup> facet_result) \<times> string list)" where
  "ArrayFacet_step u self facet_size source_and_config st =
     (case st of (facet_results, facets_timed_out) \<Rightarrow>
      (case config_column (config source_and_config) of
        Inl e \<Rightarrow> Inl e
      | Inr cj \<Rightarrow>
      (case escape_sqlite_arg cj of
        Inl e \<Rightarrow> Inl e
      | Inr col \<Rightarrow>
      (case execute (ds self) (database self) (ArrayFacetSql col (sql self) (facet_size + 1))
              (params self) (Some (facet_time_limit_ms (ds self))) of
        Inl e \<Rightarrow>
          if e = QueryInterrupted then Inr (facet_results, facets_timed_out @ [col]) else Inl e
      | Inr facet_rows_results \<Rightarrow>
          (case ArrayFacet_rows_loop u self (get_querystring_pairs self) col
                  (slice_to (res_rows facet_rows_results) facet_size) of
             Inl e \<Rightarrow> Inl e
           | Inr facet_results_values \<Rightarrow>
               Inr (facet_results(col \<mapsto>
                      \<lparr>fr_name = col,
                       fr_type = ''array'',
                       fr_hideable = (source source_and_config \<noteq> ''metadata''),
                       fr_toggle_url = path_with_removed_args u (request self) [(''_facet_array'', col)],
                       fr_results = facet_results_values,
                       fr_truncated = (int (length (res_rows facet_rows_results)) > facet_size)\<rparr>),
                    facets_timed_out))))))"

fun ArrayFacet_loop :: "utils \<Rightarrow> facet \<Rightarrow> int \<Rightarrow> source_and_config list \<Rightarrow> (string \<rightharpoonup> facet_result) \<times> string list \<Rightarrow> error + ((string \<rightharpoonup> facet_result) \<times> string list)" where
  "ArrayFacet_loop u self facet_size [] st = Inr st"
| "ArrayFacet_loop u self facet_size (source_and_config # rest) st =
     (case ArrayFacet_step u self facet_size source_and_config st of
        Inl e \<Rightarrow> Inl e
      | Inr st' \<Rightarrow> ArrayFacet_loop u self facet_size rest st')"

definition ArrayFacet_facet_results :: "utils \<Rightarrow> facet \<Rightarrow> error + ((string \<rightharpoonup> facet_result) \<times> string list)" where
  "ArrayFacet_facet_results u self =
     (case get_configs u ''array'' self of
        Inl e \<Rightarrow> Inl e
      | Inr configs \<Rightarrow>
          ArrayFacet_loop u self (default_facet_size (ds self)) configs (Map.empty, []))"

section \<open>\<^verbatim>\<open>class DateFacet\<close>\<close>

text \<open>Truthiness of a cell, for \<^verbatim>\<open>any(values)\<close>.\<close>

fun value_truthy :: "sqlite_value \<Rightarrow> bool" where
  "value_truthy SqlNull = False"
| "value_truthy (SqlInt i) = (i \<noteq> 0)"
| "value_truthy (SqlText s) = (s \<noteq> [])"
| "value_truthy (SqlBlob b) = (b \<noteq> [])"

fun DateFacet_suggest_loop :: "utils \<Rightarrow> facet \<Rightarrow> json list \<Rightarrow> string list \<Rightarrow> suggested_facet list \<Rightarrow> error + suggested_facet list" where
  "DateFacet_suggest_loop u self already_enabled [] suggested_facets = Inr suggested_facets"
| "DateFacet_suggest_loop u self already_enabled (col # cols) suggested_facets =
     (if JStr col \<in> set already_enabled then
        DateFacet_suggest_loop u self already_enabled cols suggested_facets
      else
        case execute (ds self) (database self) (DateSuggestSql col (sql self))
               (params self) (Some (facet_suggest_time_limit_ms (ds self))) of
          Inl e \<Rightarrow>
            if e = QueryInterrupted \<or> e = OperationalError then
              DateFacet_suggest_loop u self already_enabled cols suggested_facets
            else Inl e
        | Inr rs \<Rightarrow>
            (case first_cells (res_rows rs) of
               Inl e \<Rightarrow>
                 if e = QueryInterrupted \<or> e = OperationalError then
                   DateFacet_suggest_loop u self already_enabled cols suggested_facets
                 else Inl e
             | Inr vals \<Rightarrow>
                 if list_ex value_truthy vals then
                   DateFacet_suggest_loop u self already_enabled cols
                     (suggested_facets @
                        [\<lparr>sf_name = col, sf_type = Some ''date'',
                          sf_toggle_url = absolute_url (ds self) (request self)
                            (path_with_added_args u (request self) [(''_facet_date'', SqlText col)])\<rparr>])
                 else
                   DateFacet_suggest_loop u self already_enabled cols suggested_facets))"

definition DateFacet_suggest :: "utils \<Rightarrow> facet \<Rightarrow> error + suggested_facet list" where
  "DateFacet_suggest u self =
     (case get_columns self of
        Inl e \<Rightarrow> Inl e
      | Inr cols \<Rightarrow>
          (case get_configs u ''date'' self of
             Inl e \<Rightarrow> Inl e
           | Inr configs \<Rightarrow>
               (case simple_configs configs of
                  Inl e \<Rightarrow> Inl e
                | Inr already_enabled \<Rightarrow> DateFacet_suggest_loop u self already_enabled cols [])))"

text \<open>
  \<^verbatim>\<open>str(args.get(key))\<close> for \<^verbatim>\<open>args = dict(self.get_querystring_pairs())\<close>: of
  two pairs with one key the dict keeps the later; an absent key gives \<^verbatim>\<open>None\<close>.
\<close>

definition str_args_get :: "(string \<times> string) list \<Rightarrow> string \<Rightarrow> string" where
  "str_args_get pairs k =
     py_str (case map_of (rev pairs) k of None \<Rightarrow> SqlNull | Some s \<Rightarrow> SqlText s)"

fun DateFacet_rows_loop :: "utils \<Rightarrow> facet \<Rightarrow> (string \<times> string) list \<Rightarrow> string \<Rightarrow> row list \<Rightarrow> error + facet_value list" where
  "DateFacet_rows_loop u self pairs col [] = Inr []"
| "DateFacet_rows_loop u self pairs col (r # facet_rows) =
     (case row_getitem r ''value'' of
        Inl e \<Rightarrow> Inl e
      | Inr v \<Rightarrow>
          let selected = (str_args_get pairs (col @ ''__date'') = py_str v);
              toggle_path =
                (if selected then path_with_removed_args u (request self) [(col @ ''__date'', py_str v)]
                 else path_with_added_args u (request self) [(col @ ''__date'', v)])
          in (case row_getitem r ''count'' of
                Inl e \<Rightarrow> Inl e
              | Inr c \<Rightarrow>
                  (case DateFacet_rows_loop u self pairs col facet_rows of
                     Inl e \<Rightarrow> Inl e
                   | Inr entries \<Rightarrow>
                       Inr (\<lparr>fv_value = v,
                             fv_label = v,
                             fv_count = c,
                             fv_toggle_url = absolute_url (ds self) (request self) toggle_path,
                             fv_selected = selected\<rparr> # entries))))"

definition DateFacet_step :: "utils \<Rightarrow> facet \<Rightarrow> int \<Rightarrow> source_and_config \<Rightarrow> (string \<rightharpoonup> facet_result) \<times> string list \<Rightarrow> error + ((string \<rightharpoonup> facet_result) \<times> string list)" where
  "DateFacet_step u self facet_size source_and_config st =
     (case st of (facet_results, facets_timed_out) \<Rightarrow>
      (case config_column (config source_and_config) of
        Inl e \<Rightarrow> Inl e
      | Inr cj \<Rightarrow>
      (case escape_sqlite_arg cj of
        Inl e \<Rightarrow> Inl e
      | Inr col \<Rightarrow>
      (case execute (ds self) (database self) (DateFacetSql col (sql self) (facet_size + 1))
              (params self) (Some (facet_time_limit_ms (ds self))) of
        Inl e \<Rightarrow>
          if e = QueryInterrupted then Inr (facet_results, facets_timed_out @ [col]) else Inl e
      | Inr facet_rows_results \<Rightarrow>
          (case DateFacet_rows_loop u self (get_querystring_pairs self) col
                  (slice_to (res_rows facet_rows_results) facet_size) of
             Inl e \<Rightarrow> Inl e
           | Inr facet_results_values \<Rightarrow>
               Inr (facet_results(col \<mapsto>
                      \<lparr>fr_name = col,
                       fr_type = ''date'',
                       fr_hideable = (source source_and_config \<noteq> ''metadata''),
                       fr_toggle_url = path_with_removed_args u (request self) [(''_facet_date'', col)],
                       fr_results = facet_results_values,
                       fr_truncated = (int (length (res_rows facet_rows_results)) > facet_size)\<rparr>),
                    facets_timed_out))))))"

fun DateFacet_loop :: "utils \<Rightarrow> facet \<Rightarrow> int \<Rightarrow> source_and_config list \<Rightarrow> (string \<rightharpoonup> facet_result) \<times> string list \<Rightarrow> error + ((string \<rightharpoonup> facet_result) \<times> string list)" where
  "DateFacet_loop u self facet_size [] st = Inr st"
| "DateFacet_loop u self facet_size (source_and_config # rest) st =
     (case DateFacet_step u self facet_size source_and_config st of
        Inl e \<Rightarrow> Inl e
      | Inr st' \<Rightarrow> DateFacet_loop u self facet_size rest st')"

definition DateFacet_facet_results :: "utils \<Rightarrow> facet \<Rightarrow> error + ((string \<rightharpoonup> facet_result) \<times> string list)" where
  "DateFacet_facet_results u self =
     (case get_configs u ''date'' self of
        Inl e \<Rightarrow> Inl e
      | Inr configs \<Rightarrow>
          DateFacet_loop u self (default_facet_size (ds self)) configs (Map.empty, []))"

section \<open>\<^verbatim>\<open>json.dumps\<close> of a dict of strings\<close>

text \<open>
  \<^verbatim>\<open>json.dumps(d, separators=(",", ":"), sort_keys=True)\<close> for a dict \<open>d\<close> whose keys and
  values are strings, as the standard library's encoder writes it (with its default
  \<^verbatim>\<open>ensure_ascii=True\<close>). A string is written between double quotes; the backslash,
  the double quote and every character outside the range from the space to the tilde
  are escaped: by the short escapes \<^verbatim>\<open>\\ \" \b \f \n \r \t\<close> or else by \<^verbatim>\<open>\uXXXX\<close> with
  four lower-case hexadecimal digits.
\<close>

definition hex4 :: "nat \<Rightarrow> string" where
  "hex4 n = [''0123456789abcdef'' ! (n div 4096 mod 16), ''0123456789abcdef'' ! (n div 256 mod 16),
             ''0123456789abcdef'' ! (n div 16 mod 16), ''0123456789abcdef'' ! (n mod 16)]"

definition escape_char :: "char \<Rightarrow> string" where
  "escape_char c =
     (if c = CHR 0x5C then [CHR 0x5C, CHR 0x5C]
      else if c = CHR 0x22 then [CHR 0x5C, CHR 0x22]
      else if c = CHR 0x08 then [CHR 0x5C, CHR ''b'']
      else if c = CHR 0x0C then [CHR 0x5C, CHR ''f'']
      else if c = CHR 0x0A then [CHR 0x5C, CHR ''n'']
      else if c = CHR 0x0D then [CHR 0x5C, CHR ''r'']
      else if c = CHR 0x09 then [CHR 0x5C, CHR ''t'']
      else if (of_char c :: nat) < 0x20 \<or> 0x7E < (of_char c :: nat) then
        [CHR 0x5C, CHR ''u''] @ hex4 (of_char c)
      else [c])"

definition encode_basestring_ascii :: "string \<Rightarrow> string" where
  "encode_basestring_ascii s = [CHR 0x22] @ concat (map escape_char s) @ [CHR 0x22]"

text \<open>\<^verbatim>\<open>sorted(d.items())\<close>: strings compare by code point, the shorter first on a tie.\<close>

fun str_le :: "string \<Rightarrow> string \<Rightarrow> bool" where
  "str_le [] ys = True"
| "str_le (x # xs) [] = False"
| "str_le (x # xs) (y # ys) =
     (if x = y then str_le xs ys else (of_char x :: nat) < of_char y)"

fun insort_item :: "string \<times> string \<Rightarrow> (string \<times> string) list \<Rightarrow> (string \<times> string) list" where
  "insort_item kv [] = [kv]"
| "insort_item kv (kv' # rest) =
     (if str_le (fst kv) (fst kv') then kv # kv' # rest else kv' # insort_item kv rest)"

definition sorted_items :: "(string \<times> string) list \<Rightarrow> (string \<times> string) list" where
  "sorted_items items = foldr insort_item items []"

fun join :: "string \<Rightarrow> string list \<Rightarrow> string" where
  "join sep [] = []"
| "join sep [x] = x"
| "join sep (x # y # rest) = x @ sep @ join sep (y # rest)"

definition json_dumps :: "(string \<times> string) list \<Rightarrow> string" where
  "json_dumps items =
     ''{'' @
     join '','' (map (\<lambda>kv. encode_basestring_ascii (fst kv) @ '':'' @ encode_basestring_ascii (snd kv))
                  (sorted_items items)) @
     ''}''"

section \<open>\<^verbatim>\<open>class ManyToManyFacet\<close>\<close>

text \<open>
  \<^verbatim>\<open>[t for t in other_table_outgoing_foreign_keys if t["other_table"] != self.table][0]["other_table"]\<close>:
  \<^verbatim>\<open>IndexError\<close> when no outgoing key leads elsewhere.
\<close>

definition destination_of :: "string option \<Rightarrow> foreign_key list \<Rightarrow> error + string" where
  "destination_of self_table other_table_outgoing_foreign_keys =
     (case filter (\<lambda>t. Some (fk_other_table t) \<noteq> self_table) other_table_outgoing_foreign_keys of
        [] \<Rightarrow> Inl IndexError
      | t # _ \<Rightarrow> Inr (fk_other_table t))"

text \<open>
  The loop of \<^verbatim>\<open>ManyToManyFacet.suggest\<close> over the incoming keys (lines 496 to 521).
  \<^verbatim>\<open>all_foreign_keys[other_table]\<close> raises \<^verbatim>\<open>KeyError\<close> for a table it does not list.
\<close>

fun ManyToManyFacet_suggest_loop :: "utils \<Rightarrow> facet \<Rightarrow> all_foreign_keys \<Rightarrow> (string \<times> string) list \<Rightarrow> foreign_key list \<Rightarrow> suggested_facet list \<Rightarrow> error + suggested_facet list" where
  "ManyToManyFacet_suggest_loop u self all_fks args [] suggested_facets = Inr suggested_facets"
| "ManyToManyFacet_suggest_loop u self all_fks args (fk # rest) suggested_facets =
     (case all_fks (fk_other_table fk) of
        None \<Rightarrow> Inl KeyError
      | Some other \<Rightarrow>
          if length (outgoing other) = 2 then
            (case destination_of (table self) (outgoing other) of
               Inl e \<Rightarrow> Inl e
             | Inr destination_table \<Rightarrow>
                 if (''_facet_m2m'', destination_table) \<in> set args then
                   ManyToManyFacet_suggest_loop u self all_fks args rest suggested_facets
                 else
                   ManyToManyFacet_suggest_loop u self all_fks args rest
                     (suggested_facets @
                        [\<lparr>sf_name = destination_table, sf_type = Some ''m2m'',
                          sf_toggle_url = absolute_url (ds self) (request self)
                            (path_with_added_args u (request self)
                               [(''_facet_m2m'', SqlText destination_table)])\<rparr>]))
          else ManyToManyFacet_suggest_loop u self all_fks args rest suggested_facets)"

text \<open>
  \<^verbatim>\<open>all_foreign_keys.get(self.table)\<close> is \<^verbatim>\<open>None\<close> for a table that is not listed (and
  for \<^verbatim>\<open>self.table = None\<close>); an entry that is listed is a dict with two keys, which
  is true. \<^verbatim>\<open>args\<close> is the set of the query-string pairs, used for membership only.
\<close>

definition table_entry :: "all_foreign_keys \<Rightarrow> string option \<Rightarrow> table_foreign_keys option" where
  "table_entry all_fks t = (case t of None \<Rightarrow> None | Some n \<Rightarrow> all_fks n)"

definition ManyToManyFacet_suggest :: "utils \<Rightarrow> facet \<Rightarrow> error + suggested_facet list" where
  "ManyToManyFacet_suggest u self =
     (let all_fks = get_all_foreign_keys (ds self) (database self) in
      case table_entry all_fks (table self) of
        None \<Rightarrow> Inr []
      | Some entry \<Rightarrow>
          ManyToManyFacet_suggest_loop u self all_fks (get_querystring_pairs self) (incoming entry) [])"

text \<open>
  The search for the middle table (lines 541 to 558): the first incoming key whose
  table has an outgoing key to the destination and exactly two outgoing keys.
\<close>

fun find_middle_table :: "all_foreign_keys \<Rightarrow> json \<Rightarrow> foreign_key list \<Rightarrow> error + (foreign_key list \<times> string) option" where
  "find_middle_table all_fks destination_table [] = Inr None"
| "find_middle_table all_fks destination_table (fk # rest) =
     (case all_fks (fk_other_table fk) of
        None \<Rightarrow> Inl KeyError
      | Some other \<Rightarrow>
          if list_ex (\<lambda>ob. JStr (fk_other_table ob) = destination_table) (outgoing other)
             \<and> length (outgoing other) = 2
          then Inr (Some (outgoing other, fk_other_table fk))
          else find_middle_table all_fks destination_table rest)"

text \<open>
  The loop over \<^verbatim>\<open>fks\<close> (lines 575 to 583); the state is
  \<^verbatim>\<open>(column_to_table, table_pk, column_to_destination)\<close>, each \<^verbatim>\<open>None\<close> at first.
\<close>

fun fk_columns :: "string option \<Rightarrow> string \<Rightarrow> foreign_key list \<Rightarrow> string option \<times> string option \<times> string option \<Rightarrow> string option \<times> string option \<times> string option" where
  "fk_columns self_table destination_table [] st = st"
| "fk_columns self_table destination_table (fk # rest) (column_to_table, table_pk, column_to_destination) =
     (if Some (fk_other_table fk) = self_table then
        fk_columns self_table destination_table rest
          (Some (fk_column fk), Some (fk_other_column fk), column_to_destination)
      else if fk_other_table fk = destination_table then
        fk_columns self_table destination_table rest
          (column_to_table, table_pk, Some (fk_column fk))
      else fk_columns self_table destination_table rest (column_to_table, table_pk, column_to_destination))"

text \<open>The selection token of a row (lines 631 to 639).\<close>

definition through_token :: "string \<Rightarrow> string \<Rightarrow> string \<Rightarrow> string" where
  "through_token middle_table column_to_destination v =
     json_dumps [(''table'', middle_table), (''column'', column_to_destination), (''value'', v)]"

fun ManyToManyFacet_rows_loop :: "utils \<Rightarrow> facet \<Rightarrow> (string \<times> string) list \<Rightarrow> string \<Rightarrow> string \<Rightarrow> ((string \<times> sqlite_value) \<rightharpoonup> sqlite_value) \<Rightarrow> row list \<Rightarrow> error + facet_value list" where
  "ManyToManyFacet_rows_loop u self args middle_table column_to_destination expanded [] = Inr []"
| "ManyToManyFacet_rows_loop u self args middle_table column_to_destination expanded (r # facet_rows) =
     (case row_getitem r ''value'' of
        Inl e \<Rightarrow> Inl e
      | Inr v \<Rightarrow>
          let through = through_token middle_table column_to_destination (py_str v);
              selected = ((''_through'', through) \<in> set args);
              toggle_path =
                (if selected then path_with_removed_args u (request self) [(''_through'', through)]
                 else path_with_added_args u (request self) [(''_through'', SqlText through)])
          in (case row_getitem r ''count'' of
                Inl e \<Rightarrow> Inl e
              | Inr c \<Rightarrow>
                  (case ManyToManyFacet_rows_loop u self args middle_table column_to_destination
                          expanded facet_rows of
                     Inl e \<Rightarrow> Inl e
                   | Inr entries \<Rightarrow>
                       Inr (\<lparr>fv_value = v,
                             fv_label = (case expanded (column_to_destination, v) of
                                           None \<Rightarrow> v | Some l \<Rightarrow> l),
                             fv_count = c,
                             fv_toggle_url = absolute_url (ds self) (request self) toggle_path,
                             fv_selected = selected\<rparr> # entries))))"

text \<open>
  The loop of \<^verbatim>\<open>ManyToManyFacet.facet_results\<close> over the configurations (lines 535
  to 663). When no middle table is found the method returns \<^verbatim>\<open>[], []\<close> at once, whatever
  it has collected. The destination is compared with table names before it is used as
  a name, so once a middle table is found it is a string.
\<close>

fun ManyToManyFacet_loop :: "utils \<Rightarrow> facet \<Rightarrow> all_foreign_keys \<Rightarrow> foreign_key list \<Rightarrow> (string \<times> string) list \<Rightarrow> int \<Rightarrow> source_and_config list \<Rightarrow> (string \<rightharpoonup> facet_result) \<times> string list \<Rightarrow> error + ((string \<rightharpoonup> facet_result) \<times> string list)" where
  "ManyToManyFacet_loop u self all_fks incoming_fks args facet_size [] st = Inr st"
| "ManyToManyFacet_loop u self all_fks incoming_fks args facet_size (source_and_config # rest) st =
     (case st of (facet_results, facets_timed_out) \<Rightarrow>
      (case config_column (config source_and_config) of
        Inl e \<Rightarrow> Inl e
      | Inr dj \<Rightarrow>
      (case find_middle_table all_fks dj incoming_fks of
        Inl e \<Rightarrow> Inl e
      | Inr None \<Rightarrow> Inr (Map.empty, [])
      | Inr (Some (fks, middle_table)) \<Rightarrow>
      (case dj of
        JStr destination_table \<Rightarrow>
          (case fk_columns (table self) destination_table fks (None, None, None) of
             (column_to_table, table_pk, column_to_destination) \<Rightarrow>
          if \<not> (str_truthy column_to_table \<and> str_truthy table_pk \<and> str_truthy column_to_destination)
          then Inl AssertionError
          else
          (case execute (ds self) (database self)
                  (ManyToManyFacetSql (sql self) (facet_size + 1) middle_table
                     (the column_to_destination) (the column_to_table) (the table_pk))
                  (params self) (Some (facet_time_limit_ms (ds self))) of
             Inl e \<Rightarrow>
               if e = QueryInterrupted then
                 ManyToManyFacet_loop u self all_fks incoming_fks args facet_size rest
                   (facet_results, facets_timed_out @ [destination_table])
               else Inl e
           | Inr facet_rows_results \<Rightarrow>
               let facet_rows = slice_to (res_rows facet_rows_results) facet_size in
               (case row_values facet_rows of
                  Inl e \<Rightarrow> Inl e
                | Inr vals \<Rightarrow>
                    (case ManyToManyFacet_rows_loop u self args middle_table (the column_to_destination)
                            (expand_foreign_keys (ds self) (database self) middle_table
                               (the column_to_destination) vals)
                            facet_rows of
                       Inl e \<Rightarrow> Inl e
                     | Inr facet_results_values \<Rightarrow>
                         ManyToManyFacet_loop u self all_fks incoming_fks args facet_size rest
                           (facet_results(destination_table \<mapsto>
                              \<lparr>fr_name = destination_table,
                               fr_type = ''m2m'',
                               fr_hideable = (source source_and_config \<noteq> ''metadata''),
                               fr_toggle_url = path_with_removed_args u (request self)
                                                 [(''_facet_m2m'', destination_table)],
                               fr_results = facet_results_values,
                               fr_truncated = (int (length (res_rows facet_rows_results)) > facet_size)\<rparr>),
                            facets_timed_out)))))
      | _ \<Rightarrow> Inl TypeError))))"

definition ManyToManyFacet_facet_results :: "utils \<Rightarrow> facet \<Rightarrow> error + ((string \<rightharpoonup> facet_result) \<times> string list)" where
  "ManyToManyFacet_facet_results u self =
     (let all_fks = get_all_foreign_keys (ds self) (database self) in
      case table_entry all_fks (table self) of
        None \<Rightarrow> Inr (Map.empty, [])
      | Some entry \<Rightarrow>
          (case get_configs u ''m2m'' self of
             Inl e \<Rightarrow> Inl e
           | Inr configs \<Rightarrow>
               ManyToManyFacet_loop u self all_fks (incoming entry) (get_querystring_pairs self)
                 (default_facet_size (ds self)) configs (Map.empty, [])))"

section \<open>Parsing the selection token\<close>

text \<open>
  Modelled from the spec: the parsing of the \<^verbatim>\<open>_through\<close> token, which is done where the
  filter state is read and is not part of the module. The token is parsed as JSON
  (\<^verbatim>\<open>json.loads\<close>) and its \<^verbatim>\<open>table\<close>, \<^verbatim>\<open>column\<close> and \<^verbatim>\<open>value\<close> members are read.
  \<open>json_loads_strings\<close> parses a JSON object whose members are strings, with optional
  white space between the tokens; of two members with one name the later counts. A string
  runs to the next unescaped double quote; the escapes are \<^verbatim>\<open>\" \\ \/ \b \f \n \r \t\<close> and
  \<^verbatim>\<open>\uXXXX\<close> (in this model for the code points below 256 only), and a literal control
  character is refused. The fuel of \<open>parse_members\<close> is the length of the input: every
  member takes at least one character.
\<close>

definition hex_value :: "char \<Rightarrow> nat option" where
  "hex_value c =
     (let n = (of_char c :: nat) in
      if 48 \<le> n \<and> n \<le> 57 then Some (n - 48)
      else if 97 \<le> n \<and> n \<le> 102 then Some (n - 87)
      else if 65 \<le> n \<and> n \<le> 70 then Some (n - 55)
      else None)"

definition hex4_value :: "char \<Rightarrow> char \<Rightarrow> char \<Rightarrow> char \<Rightarrow> nat option" where
  "hex4_value a b c d =
     (case (hex_value a, hex_value b, hex_value c, hex_value d) of
        (Some w, Some x, Some y, Some z) \<Rightarrow> Some (((w * 16 + x) * 16 + y) * 16 + z)
      | _ \<Rightarrow> None)"

definition unescape :: "char \<Rightarrow> char option" where
  "unescape e =
     (if e = CHR 0x22 then Some (CHR 0x22)
      else if e = CHR 0x5C then Some (CHR 0x5C)
      else if e = CHR ''/'' then Some (CHR ''/'')
      else if e = CHR ''b'' then Some (CHR 0x08)
      else if e = CHR ''f'' then Some (CHR 0x0C)
      else if e = CHR ''n'' then Some (CHR 0x0A)
      else if e = CHR ''r'' then Some (CHR 0x0D)
      else if e = CHR ''t'' then Some (CHR 0x09)
      else None)"

fun scan_string :: "string \<Rightarrow> (string \<times> string) option" where
  "scan_string [] = None"
| "scan_string (c # cs) =
     (if c = CHR 0x22 then Some ([], cs)
      else if c = CHR 0x5C then
        (case cs of
           [] \<Rightarrow> None
         | e # cs' \<Rightarrow>
             if e = CHR ''u'' then
               (case cs' of
                  h1 # h2 # h3 # h4 # rest \<Rightarrow>
                    (case hex4_value h1 h2 h3 h4 of
                       None \<Rightarrow> None
                     | Some n \<Rightarrow>
                         if n < 256 then
                           map_option (\<lambda>sr. (char_of n # fst sr, snd sr)) (scan_string rest)
                         else None)
                | _ \<Rightarrow> None)
             else
               (case unescape e of
                  None \<Rightarrow> None
                | Some x \<Rightarrow> map_option (\<lambda>sr. (x # fst sr, snd sr)) (scan_string cs')))
      else if (of_char c :: nat) < 0x20 then None
      else map_option (\<lambda>sr. (c # fst sr, snd sr)) (scan_string cs))"

definition is_ws :: "char \<Rightarrow> bool" where
  "is_ws c = (c = CHR '' '' \<or> c = CHR 0x09 \<or> c = CHR 0x0A \<or> c = CHR 0x0D)"

fun skip_ws :: "string \<Rightarrow> string" where
  "skip_ws [] = []"
| "skip_ws (c # cs) = (if is_ws c then skip_ws cs else c # cs)"

fun parse_members :: "nat \<Rightarrow> string \<Rightarrow> (string \<times> string) list option" where
  "parse_members 0 s = None"
| "parse_members (Suc fuel) s =
     (case s of
        [] \<Rightarrow> None
      | q # s1 \<Rightarrow>
          if q \<noteq> CHR 0x22 then None
          else
            (case scan_string s1 of
               None \<Rightarrow> None
             | Some (k, s2) \<Rightarrow>
                 (case skip_ws s2 of
                    [] \<Rightarrow> None
                  | colon # s3 \<Rightarrow>
                      if colon \<noteq> CHR '':'' then None
                      else
                        (case skip_ws s3 of
                           [] \<Rightarrow> None
                         | q2 # s4 \<Rightarrow>
                             if q2 \<noteq> CHR 0x22 then None
                             else
                               (case scan_string s4 of
                                  None \<Rightarrow> None
                                | Some (v, s5) \<Rightarrow>
                                    (case skip_ws s5 of
                                       [] \<Rightarrow> None
                                     | x # s6 \<Rightarrow>
                                         if x = CHR '','' then
                                           map_option ((#) (k, v)) (parse_members fuel (skip_ws s6))
                                         else if x = CHR ''}'' then
                                           (if skip_ws s6 = [] then Some [(k, v)] else None)
                                         else None))))))"

definition json_loads_strings :: "string \<Rightarrow> (string \<times> string) list option" where
  "json_loads_strings s =
     (case skip_ws s of
        [] \<Rightarrow> None
      | br # s1 \<Rightarrow>
          if br \<noteq> CHR ''{'' then None
          else
            (case skip_ws s1 of
               [] \<Rightarrow> None
             | x # s2 \<Rightarrow>
                 if x = CHR ''}'' then (if skip_ws s2 = [] then Some [] else None)
                 else parse_members (length s) (x # s2)))"

definition parse_through :: "string \<Rightarrow> (string \<times> string \<times> string) option" where
  "parse_through token =
     (case json_loads_strings token of
        None \<Rightarrow> None
      | Some d \<Rightarrow>
          (case (map_of (rev d) ''table'', map_of (rev d) ''column'', map_of (rev d) ''value'') of
             (Some t, Some c, Some v) \<Rightarrow> Some (t, c, v)
           | _ \<Rightarrow> None))"

section \<open>The URL helpers\<close>

text \<open>
  Modelled from the spec: the helpers \<^verbatim>\<open>path_with_added_args\<close> and
  \<^verbatim>\<open>path_with_removed_args\<close> of \<^verbatim>\<open>datasette.utils\<close>, which are not part of the module;
  they produce a URL with a given key-value pair added or removed. \<open>current\<close> gives the
  pairs the helper reads from the query string of the request
  (\<^verbatim>\<open>urllib.parse.parse_qsl\<close>), and \<open>url p pairs\<close> is the path \<open>p\<close> followed by the query
  string of the pairs (\<^verbatim>\<open>urllib.parse.urlencode\<close>).
  \<^item> Adding: an argument whose value is \<^verbatim>\<open>None\<close> removes the current pairs of its key;
    every other argument is appended to the current pairs, its value written as
    \<^verbatim>\<open>urlencode\<close> writes a value: a \<^verbatim>\<open>bytes\<close> object as it is, anything else as
    \<^verbatim>\<open>str()\<close> of it.
  \<^item> Removing: the current pairs that agree with an argument in key and value are left
    out.
\<close>

definition urlencode_text :: "sqlite_value \<Rightarrow> string" where
  "urlencode_text v = (case v of SqlBlob b \<Rightarrow> b | _ \<Rightarrow> py_str v)"

definition path_with_added_args_of :: "(request \<Rightarrow> (string \<times> string) list) \<Rightarrow> (string \<Rightarrow> (string \<times> string) list \<Rightarrow> string) \<Rightarrow> request \<Rightarrow> (string \<times> sqlite_value) list \<Rightarrow> string" where
  "path_with_added_args_of current url req args =
     url (path req)
       (filter (\<lambda>kv. (fst kv, SqlNull) \<notin> set args) (current req) @
        map (\<lambda>kv. (fst kv, urlencode_text (snd kv))) (filter (\<lambda>kv. snd kv \<noteq> SqlNull) args))"

definition path_with_removed_args_of :: "(request \<Rightarrow> (string \<times> string) list) \<Rightarrow> (string \<Rightarrow> (string \<times> string) list \<Rightarrow> string) \<Rightarrow> request \<Rightarrow> (string \<times> string) list \<Rightarrow> string" where
  "path_with_removed_args_of current url req args =
     url (path req) (filter (\<lambda>kv. map_of args (fst kv) \<noteq> Some (snd kv)) (current req))"

text \<open>
  The helpers call \<^verbatim>\<open>parse_qsl\<close> without \<^verbatim>\<open>keep_blank_values\<close>: the pairs with a blank
  value are left out.
\<close>

definition parse_qsl :: "request \<Rightarrow> (string \<times> string) list" where
  "parse_qsl req = filter (\<lambda>kv. snd kv \<noteq> []) (query_pairs req)"

section \<open>A reference query executor\<close>

text \<open>
  Modelled from the spec: the query executor, which is not part of the module. It
  answers the statements of \<^verbatim>\<open>ColumnFacet\<close> over a base query whose result has the
  columns \<open>cols\<close> and the rows \<open>base\<close>, as SQL defines them. \<open>interrupts\<close> tells which
  statements run out of time (they raise \<^verbatim>\<open>QueryInterrupted\<close>); a statement that names
  a column the base query does not have raises \<^verbatim>\<open>sqlite3.OperationalError\<close>; the
  statements of the other facet classes are answered by \<open>other\<close>.
  \<^item> \<^verbatim>\<open>select distinct\<close> keeps the first occurrence of each value;
  \<^item> \<^verbatim>\<open>limit k\<close> keeps the first \<open>k\<close> rows, and all of them when \<open>k\<close> is negative;
  \<^item> \<^verbatim>\<open>group by ... order by count desc\<close> lists each distinct value with the number of
    rows that hold it, the largest number first.
\<close>

definition cell :: "row \<Rightarrow> string \<Rightarrow> sqlite_value" where
  "cell r c = (case map_of r c of None \<Rightarrow> SqlNull | Some v \<Rightarrow> v)"

definition sql_distinct :: "'a list \<Rightarrow> 'a list" where
  "sql_distinct xs = rev (remdups (rev xs))"

definition sql_limit :: "int \<Rightarrow> 'a list \<Rightarrow> 'a list" where
  "sql_limit k xs = (if k < 0 then xs else take (nat k) xs)"

definition non_null_values :: "row list \<Rightarrow> string \<Rightarrow> sqlite_value list" where
  "non_null_values base c = filter (\<lambda>v. v \<noteq> SqlNull) (map (\<lambda>r. cell r c) base)"

definition column_groups :: "row list \<Rightarrow> string \<Rightarrow> (sqlite_value \<times> nat) list" where
  "column_groups base c =
     sort_key (\<lambda>g. - int (snd g))
       (map (\<lambda>v. (v, count_list (non_null_values base c) v)) (sql_distinct (non_null_values base c)))"

definition sqlite_execute :: "string list \<Rightarrow> row list \<Rightarrow> (query \<Rightarrow> bool) \<Rightarrow> (query \<Rightarrow> error + results) \<Rightarrow> string \<Rightarrow> query \<Rightarrow> sqlite_value list \<Rightarrow> int option \<Rightarrow> error + results" where
  "sqlite_execute cols base interrupts other db q ps time_limit =
     (if interrupts q then Inl QueryInterrupted
      else case q of
        ColumnsSql s \<Rightarrow> Inr \<lparr>res_columns = cols, res_rows = []\<rparr>
      | CountSql s \<Rightarrow>
          Inr \<lparr>res_columns = [''count(*)''],
               res_rows = [[(''count(*)'', SqlInt (int (length base)))]]\<rparr>
      | ColumnSuggestSql c s k \<Rightarrow>
          if c \<in> set cols then
            Inr \<lparr>res_columns = [c],
                 res_rows = map (\<lambda>v. [(c, v)]) (sql_limit k (sql_distinct (non_null_values base c)))\<rparr>
          else Inl OperationalError
      | ColumnFacetSql c s k \<Rightarrow>
          if c \<in> set cols then
            Inr \<lparr>res_columns = [''value'', ''count''],
                 res_rows = map (\<lambda>g. [(''value'', fst g), (''count'', SqlInt (int (snd g)))])
                              (sql_limit k (column_groups base c))\<rparr>
          else Inl OperationalError
      | _ \<Rightarrow> other q)"

text \<open>The number of distinct non-null values of a column of the base query.\<close>

definition num_distinct :: "row list \<Rightarrow> string \<Rightarrow> nat" where
  "num_distinct base c = card (set (non_null_values base c))"

section \<open>Example data\<close>

text \<open>
  The table of the specification's scenarios: \<^verbatim>\<open>books(id, genre)\<close> with ten rows and
  three genres (\<^verbatim>\<open>fiction\<close> five times, \<^verbatim>\<open>bio\<close> three times, \<^verbatim>\<open>poetry\<close> twice), and a
  display size of five. The helpers of \<open>example_utils\<close> are the URL helpers above, with
  the query string written as \<^verbatim>\<open>key=value\<close> joined by \<^verbatim>\<open>&\<close>, without percent-encoding.
\<close>

definition books :: "row list" where
  "books =
     [[(''id'', SqlInt 1), (''genre'', SqlText ''fiction'')],
      [(''id'', SqlInt 2), (''genre'', SqlText ''bio'')],
      [(''id'', SqlInt 3), (''genre'', SqlText ''fiction'')],
      [(''id'', SqlInt 4), (''genre'', SqlText ''poetry'')],
      [(''id'', SqlInt 5), (''genre'', SqlText ''fiction'')],
      [(''id'', SqlInt 6), (''genre'', SqlText ''bio'')],
      [(''id'', SqlInt 7), (''genre'', SqlText ''fiction'')],
      [(''id'', SqlInt 8), (''genre'', SqlText ''poetry'')],
      [(''id'', SqlInt 9), (''genre'', SqlText ''bio'')],
      [(''id'', SqlInt 10), (''genre'', SqlText ''fiction'')]]"

definition urlencode :: "(string \<times> string) list \<Rightarrow> string" where
  "urlencode pairs = join ''&'' (map (\<lambda>kv. fst kv @ ''='' @ snd kv) pairs)"

definition with_query :: "string \<Rightarrow> (string \<times> string) list \<Rightarrow> string" where
  "with_query p pairs = (if pairs = [] then p else p @ ''?'' @ urlencode pairs)"

definition example_utils :: utils where
  "example_utils =
     \<lparr>json_loads = (\<lambda>s. Inl JSONDecodeError),
      path_with_added_args = path_with_added_args_of parse_qsl with_query,
      path_with_removed_args = path_with_removed_args_of parse_qsl with_query\<rparr>"

definition example_ds :: "(string \<Rightarrow> query \<Rightarrow> sqlite_value list \<Rightarrow> int option \<Rightarrow> error + results) \<Rightarrow> all_foreign_keys \<Rightarrow> datasette" where
  "example_ds exec all_fks =
     \<lparr>execute = exec,
      default_facet_size = 5,
      facet_suggest_time_limit_ms = 50,
      facet_time_limit_ms = 200,
      absolute_url = (\<lambda>req p. ''http://localhost'' @ p),
      expand_foreign_keys = (\<lambda>db t c vals. Map.empty),
      get_all_foreign_keys = (\<lambda>db. all_fks)\<rparr>"

definition example_facet :: "(string \<Rightarrow> query \<Rightarrow> sqlite_value list \<Rightarrow> int option \<Rightarrow> error + results) \<Rightarrow> all_foreign_keys \<Rightarrow> string \<Rightarrow> (string \<times> string) list \<Rightarrow> facet" where
  "example_facet exec all_fks t pairs =
     \<lparr>ds = example_ds exec all_fks,
      request = \<lparr>path = ''/db/'' @ t, query_pairs = pairs\<rparr>,
      database = ''db'',
      sql = ''select * from ['' @ t @ '']'',
      table = Some t,
      params = [],
      metadata = None,
      row_count = None\<rparr>"

text \<open>The executor of the scenarios: the reference executor over \<open>books\<close>.\<close>

definition books_execute :: "(query \<Rightarrow> bool) \<Rightarrow> string \<Rightarrow> query \<Rightarrow> sqlite_value list \<Rightarrow> int option \<Rightarrow> error + results" where
  "books_execute interrupts =
     sqlite_execute [''id'', ''genre''] books interrupts (\<lambda>q. Inl OperationalError)"

definition books_facet :: "(query \<Rightarrow> bool) \<Rightarrow> (string \<times> string) list \<Rightarrow> facet" where
  "books_facet interrupts pairs = example_facet (books_execute interrupts) Map.empty ''books'' pairs"










text \<open>
  An executor whose statements all fail with an SQL error, once the columns and the
  row count of \<open>books\<close> have been read.
\<close>

definition failing_execute :: "string \<Rightarrow> query \<Rightarrow> sqlite_value list \<Rightarrow> int option \<Rightarrow> error + results" where
  "failing_execute db q ps time_limit =
     (case q of
        ColumnsSql s \<Rightarrow> Inr \<lparr>res_columns = [''id'', ''genre''], res_rows = []\<rparr>
      | CountSql s \<Rightarrow> Inr \<lparr>res_columns = [''count(*)''], res_rows = [[(''count(*)'', SqlInt 10)]]\<rparr>
      | _ \<Rightarrow> Inl OperationalError)"

text \<open>
  A table \<^verbatim>\<open>docs(tags)\<close> of two rows, one with a null and one with the JSON array
  \<^verbatim>\<open>["a"]\<close> in \<^verbatim>\<open>tags\<close>. The statement \<^verbatim>\<open>select distinct json_type(tags)\<close> answers with
  the types in the order of the rows: the null first when the row with the null comes
  first (\<open>null_first\<close>), the array first otherwise.
\<close>

definition docs_execute :: "bool \<Rightarrow> string \<Rightarrow> query \<Rightarrow> sqlite_value list \<Rightarrow> int option \<Rightarrow> error + results" where
  "docs_execute null_first db q ps time_limit =
     (case q of
        ColumnsSql s \<Rightarrow> Inr \<lparr>res_columns = [''tags''], res_rows = []\<rparr>
      | ArraySuggestSql c s \<Rightarrow>
          Inr \<lparr>res_columns = [''json_type(tags)''],
               res_rows =
                 (if null_first
                  then [[(''json_type(tags)'', SqlNull)], [(''json_type(tags)'', SqlText ''array'')]]
                  else [[(''json_type(tags)'', SqlText ''array'')], [(''json_type(tags)'', SqlNull)]])\<rparr>
      | _ \<Rightarrow> Inl OperationalError)"

text \<open>
  Foreign keys. In the first database \<^verbatim>\<open>book_tags(book_id, tag_id)\<close> joins
  \<^verbatim>\<open>books\<close> and \<^verbatim>\<open>tags\<close>; in the second \<^verbatim>\<open>friendships(person_a, person_b)\<close> has two
  foreign keys, both to \<^verbatim>\<open>people\<close>.
\<close>

definition book_tags_fks :: all_foreign_keys where
  "book_tags_fks = map_of
     [(''books'',
         \<lparr>incoming = [\<lparr>fk_other_table = ''book_tags'', fk_column = ''id'', fk_other_column = ''book_id''\<rparr>],
          outgoing = []\<rparr>),
      (''tags'',
         \<lparr>incoming = [\<lparr>fk_other_table = ''book_tags'', fk_column = ''id'', fk_other_column = ''tag_id''\<rparr>],
          outgoing = []\<rparr>),
      (''book_tags'',
         \<lparr>incoming = [],
          outgoing = [\<lparr>fk_other_table = ''books'', fk_column = ''book_id'', fk_other_column = ''id''\<rparr>,
                      \<lparr>fk_other_table = ''tags'', fk_column = ''tag_id'', fk_other_column = ''id''\<rparr>]\<rparr>)]"

definition friendships_fks :: all_foreign_keys where
  "friendships_fks = map_of
     [(''people'',
         \<lparr>incoming = [\<lparr>fk_other_table = ''friendships'', fk_column = ''id'', fk_other_column = ''person_a''\<rparr>,
                      \<lparr>fk_other_table = ''friendships'', fk_column = ''id'', fk_other_column = ''person_b''\<rparr>],
          outgoing = []\<rparr>),
      (''friendships'',
         \<lparr>incoming = [],
          outgoing = [\<lparr>fk_other_table = ''people'', fk_column = ''person_a'', fk_other_column = ''id''\<rparr>,
                      \<lparr>fk_other_table = ''people'', fk_column = ''person_b'', fk_other_column = ''id''\<rparr>]\<rparr>)]"

section \<open>Properties of \<^verbatim>\<open>load_facet_configs\<close>\<close>

lemma metadata_step_bare_name:
  "metadata_step (JStr s) (ty, fc) =
     Inr (Some ''column'',
          fc(''column'' \<mapsto> (case fc ''column'' of None \<Rightarrow> [] | Some l \<Rightarrow> l) @
               [\<lparr>source = ''metadata'', config = JObj [(''simple'', JStr s)]\<rparr>]))"
  by (simp add: setdefault_append_def)

lemma metadata_step_not_single_key:
  "length kvs \<noteq> 1 \<Longrightarrow> metadata_step (JObj kvs) st = Inl AssertionError"
  by (cases st) simp

lemma metadata_step_single_key:
  "metadata_step (JObj [(t, c)]) st = Inl TypeError"
  by (cases st) (simp add: dict_items_getitem_def)

text \<open>
  C6. A metadata entry that is a well-formed \<^verbatim>\<open>{type: config}\<close> mapping, here
  \<^verbatim>\<open>{"array": "tags"}\<close>, does not produce a configuration with source
  \<^verbatim>\<open>"metadata"\<close>: the assertion passes and \<^verbatim>\<open>metadata_config.items()[0]\<close> raises
  \<^verbatim>\<open>TypeError\<close>, so the whole call fails, whatever the request is.
\<close>

theorem load_facet_configs_structured_metadata:
  "load_facet_configs jl req (Some [(''facets'', [JObj [(''array'', JStr ''tags'')]])])
     = Inl TypeError"
  by (simp add: load_facet_configs_def metadata_facets_def dict_items_getitem_def)

lemma values_loop_bound:
  "map (value_config jl) vals = map Inr cfgs \<Longrightarrow>
   values_loop jl (Some t) vals fc =
     Inr (if vals = [] then fc
          else fc(t \<mapsto> (case fc t of None \<Rightarrow> [] | Some l \<Rightarrow> l) @
                      map (\<lambda>c. \<lparr>source = ''request'', config = c\<rparr>) cfgs))"
proof (induction vals arbitrary: fc cfgs)
  case Nil
  then show ?case by simp
next
  case (Cons v vs)
  then obtain c cs where cfgs: "cfgs = c # cs" and c: "value_config jl v = Inr c"
    and cs: "map (value_config jl) vs = map Inr cs"
    by (cases cfgs) auto
  show ?case
    using Cons.IH[OF cs] c cfgs cs by (cases vs) (auto simp: setdefault_append_def)
qed

lemma values_loop_unbound:
  "value_config jl v = Inr c \<Longrightarrow> values_loop jl None (v # vs) fc = Inl UnboundLocalError"
  by simp

lemma keys_loop_no_facet_keys:
  "\<forall>kv \<in> set pre. \<not> startswith (fst kv) ''_facet'' \<Longrightarrow>
   keys_loop jl (pre @ rest) st = keys_loop jl rest st"
proof (induction pre arbitrary: st)
  case Nil
  then show ?case by simp
next
  case (Cons kv pre)
  then have "key_step jl kv st = Inr st"
    by (cases kv; cases st) (simp add: key_step_def)
  with Cons show ?case by simp
qed

text \<open>
  C10, as the code has it. Let \<open>key\<close> start with \<^verbatim>\<open>_facet\<close> without being \<^verbatim>\<open>_facet\<close> or
  starting with \<^verbatim>\<open>_facet_\<close>, and let its values (there is at least one) all give a
  configuration. The round of the loop for \<open>key\<close> assigns no type. If no type is bound
  when the round starts, it raises \<^verbatim>\<open>UnboundLocalError\<close>; if a type \<open>t\<close> is bound, by
  an earlier key or by a metadata entry, the type stays \<open>t\<close> and the key's
  configurations are appended under \<open>t\<close> with source \<^verbatim>\<open>"request"\<close>. In particular
  the whole call raises \<^verbatim>\<open>UnboundLocalError\<close> when the table has no metadata facets
  and no earlier key of the query string starts with \<^verbatim>\<open>_facet\<close>.
\<close>

theorem malformed_facet_key_type:
  assumes "startswith key ''_facet''" and "key \<noteq> ''_facet''" and "\<not> startswith key ''_facet_''"
    and "map (value_config jl) vals = map Inr cfgs" and "vals \<noteq> []"
  shows "key_step jl (key, vals) (None, fc) = Inl UnboundLocalError
       \<and> key_step jl (key, vals) (Some t, fc) =
           Inr (Some t, fc(t \<mapsto> (case fc t of None \<Rightarrow> [] | Some l \<Rightarrow> l) @
                               map (\<lambda>c. \<lparr>source = ''request'', config = c\<rparr>) cfgs))
       \<and> (metadata_facets tm = [] \<and> parse_qs req = pre @ (key, vals) # post
            \<and> (\<forall>kv \<in> set pre. \<not> startswith (fst kv) ''_facet'')
          \<longrightarrow> load_facet_configs jl req tm = Inl UnboundLocalError)"
proof -
  obtain v vs where vals: "vals = v # vs"
    using assms(5) by (cases vals) auto
  with assms(4) obtain c where c: "value_config jl v = Inr c"
    by (cases cfgs) auto
  have unbound: "key_step jl (key, vals) (None, fc') = Inl UnboundLocalError" for fc'
    using assms(1-3) c vals by (simp add: key_step_def)
  have bound: "key_step jl (key, vals) (Some t, fc) =
      Inr (Some t, fc(t \<mapsto> (case fc t of None \<Rightarrow> [] | Some l \<Rightarrow> l) @
                          map (\<lambda>c. \<lparr>source = ''request'', config = c\<rparr>) cfgs))"
    using assms(1-3,5) values_loop_bound[OF assms(4), of t fc] by (simp add: key_step_def)
  have whole: "load_facet_configs jl req tm = Inl UnboundLocalError"
    if "metadata_facets tm = []" and "parse_qs req = pre @ (key, vals) # post"
      and "\<forall>kv \<in> set pre. \<not> startswith (fst kv) ''_facet''"
    using that unbound[of Map.empty] keys_loop_no_facet_keys[OF that(3), of jl "(key, vals) # post" "(None, Map.empty)"]
    by (simp add: load_facet_configs_def)
  from unbound bound whole show ?thesis by blast
qed

theorem malformed_facet_key_type_witness:
  "startswith ''_facetx'' ''_facet'' \<and> ''_facetx'' \<noteq> ''_facet'' \<and> \<not> startswith ''_facetx'' ''_facet_''
   \<and> key_step (\<lambda>s. Inl JSONDecodeError) (''_facetx'', [''city'']) (None, Map.empty)
         = Inl UnboundLocalError
   \<and> key_step (\<lambda>s. Inl JSONDecodeError) (''_facetx'', [''city'']) (Some ''date'', Map.empty)
         = Inr (Some ''date'',
                [''date'' \<mapsto> [\<lparr>source = ''request'', config = JObj [(''simple'', JStr ''city'')]\<rparr>]])
   \<and> load_facet_configs (\<lambda>s. Inl JSONDecodeError)
         \<lparr>path = ''/db/places'', query_pairs = [(''state'', ''CA''), (''_facetx'', ''city'')]\<rparr> None
         = Inl UnboundLocalError"
proof -
  have k: "startswith ''_facetx'' ''_facet''" "''_facetx'' \<noteq> ''_facet''"
    "\<not> startswith ''_facetx'' ''_facet_''"
    by (simp_all add: startswith_def)
  have l: "map (value_config (\<lambda>s. Inl JSONDecodeError)) [''city'']
             = map Inr [JObj [(''simple'', JStr ''city'')]]"
    by (simp add: value_config_def startswith_def)
  have n: "[''city''] \<noteq> []" by simp
  have q: "metadata_facets None = []
     \<and> parse_qs \<lparr>path = ''/db/places'', query_pairs = [(''state'', ''CA''), (''_facetx'', ''city'')]\<rparr>
         = [(''state'', [''CA''])] @ (''_facetx'', [''city'']) # []
     \<and> (\<forall>kv \<in> set [(''state'', [''CA''])]. \<not> startswith (fst kv) ''_facet'')"
    by (simp add: metadata_facets_def parse_qs_def startswith_def)
  show ?thesis
    using malformed_facet_key_type[OF k l n, of Map.empty "''date''" None
        "\<lparr>path = ''/db/places'', query_pairs = [(''state'', ''CA''), (''_facetx'', ''city'')]\<rparr>"
        "[(''state'', [''CA''])]" "[]"] k q
    by simp
qed

text \<open>
  The claim as stated fails when the table's metadata declares a facet: the key
  \<^verbatim>\<open>_facetx\<close> is then the first key processed, nothing is raised, and its value is
  filed under \<^verbatim>\<open>column\<close>, the type left bound by the metadata entry.
\<close>

theorem malformed_facet_key_counterexample:
  "\<exists>fc. load_facet_configs (\<lambda>s. Inl JSONDecodeError)
           \<lparr>path = ''/db/places'', query_pairs = [(''_facetx'', ''city'')]\<rparr>
           (Some [(''facets'', [JStr ''state''])]) = Inr fc
       \<and> fc ''column'' =
           Some [\<lparr>source = ''metadata'', config = JObj [(''simple'', JStr ''state'')]\<rparr>,
                 \<lparr>source = ''request'', config = JObj [(''simple'', JStr ''city'')]\<rparr>]"
  by (simp add: load_facet_configs_def metadata_facets_def parse_qs_def key_step_def
      startswith_def value_config_def setdefault_append_def)

section \<open>Properties of \<^verbatim>\<open>ColumnFacet\<close>\<close>

lemma length_sql_distinct: "length (sql_distinct xs) = card (set xs)"
  by (simp add: sql_distinct_def length_remdups_card_conv)

lemma ColumnFacet_suggest_loop_names:
  assumes "\<forall>c \<in> set cols. JStr c \<notin> set en \<longrightarrow>
     (case execute (ds self) (database self) (ColumnSuggestSql c (sql self) (facet_size + 1))
               (params self) (Some (facet_suggest_time_limit_ms (ds self))) of
        Inl e \<Rightarrow> e = QueryInterrupted | Inr r \<Rightarrow> True)"
  shows "\<exists>sugg. ColumnFacet_suggest_loop u self rc facet_size en cols acc = Inr sugg
        \<and> map sf_name sugg = map sf_name acc @
            filter (\<lambda>c. JStr c \<notin> set en \<and>
               (case execute (ds self) (database self) (ColumnSuggestSql c (sql self) (facet_size + 1))
                       (params self) (Some (facet_suggest_time_limit_ms (ds self))) of
                  Inl e \<Rightarrow> False
                | Inr r \<Rightarrow> 1 < int (length (res_rows r)) \<and> int (length (res_rows r)) \<le> facet_size
                           \<and> int (length (res_rows r)) < rc)) cols"
  using assms
proof (induction cols arbitrary: acc)
  case Nil
  then show ?case by simp
next
  case (Cons c cols)
  let ?ex = "execute (ds self) (database self) (ColumnSuggestSql c (sql self) (facet_size + 1))
               (params self) (Some (facet_suggest_time_limit_ms (ds self)))"
  show ?case
  proof (cases "JStr c \<in> set en")
    case True
    then show ?thesis using Cons.IH[of acc] Cons.prems by simp
  next
    case False
    show ?thesis
    proof (cases ?ex)
      case (Inl e)
      with False Cons.prems have "e = QueryInterrupted" by auto
      then show ?thesis using Cons.IH[of acc] Cons.prems Inl False by simp
    next
      case (Inr r)
      show ?thesis
      proof (cases "1 < int (length (res_rows r)) \<and> int (length (res_rows r)) \<le> facet_size
                           \<and> int (length (res_rows r)) < rc")
        case True
        then show ?thesis
          using Cons.IH[of "acc @ [\<lparr>sf_name = c, sf_type = None,
                     sf_toggle_url = absolute_url (ds self) (request self)
                       (path_with_added_args u (request self) [(''_facet'', SqlText c)])\<rparr>]"]
            Cons.prems Inr False
          by (auto simp add: Let_def)
      next
        case F: False
        then show ?thesis
          using Cons.IH[of acc] Cons.prems Inr False
          by (auto simp add: Let_def)
      qed
    qed
  qed
qed

lemma probe_rows:
  assumes "execute d = sqlite_execute cols base interrupts other" "c \<in> set cols"
  shows "execute d db (ColumnSuggestSql c s k) ps lim =
      (if interrupts (ColumnSuggestSql c s k) then Inl QueryInterrupted
       else Inr \<lparr>res_columns = [c],
                 res_rows = map (\<lambda>v. [(c, v)]) (sql_limit k (sql_distinct (non_null_values base c)))\<rparr>)"
  using assms by (simp add: sqlite_execute_def)

lemma probe_cond:
  fixes facet_size rc :: int
  shows "(1 < int (length (sql_limit (facet_size + 1) (sql_distinct (non_null_values base c))))
        \<and> int (length (sql_limit (facet_size + 1) (sql_distinct (non_null_values base c)))) \<le> facet_size
        \<and> int (length (sql_limit (facet_size + 1) (sql_distinct (non_null_values base c)))) < rc)
     = (1 < int (num_distinct base c) \<and> int (num_distinct base c) \<le> facet_size
        \<and> int (num_distinct base c) < rc)"
  unfolding sql_limit_def num_distinct_def length_sql_distinct[symmetric]
  by (cases "facet_size + 1 < 0") auto

text \<open>
  C1. Let the executor be the reference executor over a base query with columns \<open>cols\<close>
  and rows \<open>base\<close>, let the row count be the one the method computes (or the true count
  of the base query, if given), and let the count, the column listing and the
  configurations load. Then \<^verbatim>\<open>ColumnFacet.suggest\<close> returns, and it proposes a column that
  is not already enabled if and only if the column's probe is not interrupted and the
  number \<open>n\<close> of distinct non-null values of the column satisfies
  \<open>1 < n \<le> size\<close> and \<open>n <\<close> the number of rows of the base query.
\<close>

theorem ColumnFacet_suggest_iff:
  assumes ex: "execute (ds self) = sqlite_execute cols base interrupts other"
    and rc: "row_count self = None \<or> row_count self = Some (int (length base))"
    and ni: "\<not> interrupts (CountSql (sql self))" "\<not> interrupts (ColumnsSql (sql self))"
    and cfgs: "get_configs u ''column'' self = Inr configs"
         "simple_configs configs = Inr already_enabled"
  shows "\<exists>suggested. ColumnFacet_suggest u self = Inr suggested \<and>
     (\<forall>c \<in> set cols. JStr c \<notin> set already_enabled \<longrightarrow>
        (c \<in> sf_name ` set suggested \<longleftrightarrow>
           \<not> interrupts (ColumnSuggestSql c (sql self) (default_facet_size (ds self) + 1))
           \<and> 1 < int (num_distinct base c)
           \<and> int (num_distinct base c) \<le> default_facet_size (ds self)
           \<and> int (num_distinct base c) < int (length base)))"
proof -
  let ?size = "default_facet_size (ds self)"
  have rcv: "get_row_count self = Inr (int (length base))"
    using rc ni(1) ex by (auto simp: get_row_count_def sqlite_execute_def row_first_def)
  have colsv: "get_columns self = Inr cols"
    using ni(2) ex by (simp add: get_columns_def sqlite_execute_def)
  have pre: "\<forall>c \<in> set cols. JStr c \<notin> set already_enabled \<longrightarrow>
     (case execute (ds self) (database self) (ColumnSuggestSql c (sql self) (?size + 1))
               (params self) (Some (facet_suggest_time_limit_ms (ds self))) of
        Inl e \<Rightarrow> e = QueryInterrupted | Inr r \<Rightarrow> True)"
    by (simp add: probe_rows[OF ex])
  from ColumnFacet_suggest_loop_names[OF pre, of u "int (length base)" "[]"]
  obtain sugg where s1: "ColumnFacet_suggest_loop u self (int (length base)) ?size already_enabled cols [] = Inr sugg"
    and s2: "map sf_name sugg = 
            filter (\<lambda>c. JStr c \<notin> set already_enabled \<and>
               (case execute (ds self) (database self) (ColumnSuggestSql c (sql self) (?size + 1))
                       (params self) (Some (facet_suggest_time_limit_ms (ds self))) of
                  Inl e \<Rightarrow> False
                | Inr r \<Rightarrow> 1 < int (length (res_rows r)) \<and> int (length (res_rows r)) \<le> ?size
                           \<and> int (length (res_rows r)) < int (length base))) cols"
    by auto
  have whole: "ColumnFacet_suggest u self = Inr sugg"
    using rcv colsv cfgs s1 by (simp add: ColumnFacet_suggest_def)
  have "c \<in> sf_name ` set sugg \<longleftrightarrow>
           \<not> interrupts (ColumnSuggestSql c (sql self) (?size + 1))
           \<and> 1 < int (num_distinct base c)
           \<and> int (num_distinct base c) \<le> ?size
           \<and> int (num_distinct base c) < int (length base)"
    if c: "c \<in> set cols" and ne: "JStr c \<notin> set already_enabled" for c
  proof -
    have "c \<in> sf_name ` set sugg \<longleftrightarrow> c \<in> set (map sf_name sugg)" by simp
    also have "\<dots> \<longleftrightarrow> (case execute (ds self) (database self) (ColumnSuggestSql c (sql self) (?size + 1))
                       (params self) (Some (facet_suggest_time_limit_ms (ds self))) of
                  Inl e \<Rightarrow> False
                | Inr r \<Rightarrow> 1 < int (length (res_rows r)) \<and> int (length (res_rows r)) \<le> ?size
                           \<and> int (length (res_rows r)) < int (length base))"
      unfolding s2 using c ne by simp
    also have "\<dots> \<longleftrightarrow> \<not> interrupts (ColumnSuggestSql c (sql self) (?size + 1))
           \<and> 1 < int (num_distinct base c)
           \<and> int (num_distinct base c) \<le> ?size
           \<and> int (num_distinct base c) < int (length base)"
      using probe_cond[of ?size base c "int (length base)"]
      by (simp add: probe_rows[OF ex c])
    finally show ?thesis .
  qed
  with whole show ?thesis by blast
qed

lemma non_null_values_genre:
  "non_null_values books ''genre'' =
     [SqlText ''fiction'', SqlText ''bio'', SqlText ''fiction'', SqlText ''poetry'',
      SqlText ''fiction'', SqlText ''bio'', SqlText ''fiction'', SqlText ''poetry'',
      SqlText ''bio'', SqlText ''fiction'']"
  by (simp add: non_null_values_def books_def cell_def)

lemma num_distinct_remdups: "num_distinct base c = length (remdups (non_null_values base c))"
  by (simp add: num_distinct_def card_set)

lemma num_distinct_genre: "num_distinct books ''genre'' = 3"
  by (simp add: num_distinct_remdups non_null_values_genre)

lemma num_distinct_id: "num_distinct books ''id'' = 10"
  by (simp add: num_distinct_remdups non_null_values_def books_def cell_def)


lemma get_configs_books: "get_configs example_utils ''column'' (books_facet i []) = Inr []"
  by (simp add: get_configs_def books_facet_def example_facet_def load_facet_configs_def metadata_facets_def parse_qs_def)



lemma length_books: "length books = 10"
  by (simp add: books_def)

theorem ColumnFacet_suggest_iff_witness:
  "execute (ds (books_facet (\<lambda>q. False) [])) =
      sqlite_execute [''id'', ''genre''] books (\<lambda>q. False) (\<lambda>q. Inl OperationalError)
   \<and> row_count (books_facet (\<lambda>q. False) []) = None
   \<and> get_configs example_utils ''column'' (books_facet (\<lambda>q. False) []) = Inr []
   \<and> simple_configs [] = Inr []
   \<and> (\<exists>suggested. ColumnFacet_suggest example_utils (books_facet (\<lambda>q. False) []) = Inr suggested
         \<and> ''genre'' \<in> sf_name ` set suggested \<and> ''id'' \<notin> sf_name ` set suggested)"
proof -
  let ?f = "books_facet (\<lambda>q. False) []"
  have ex: "execute (ds ?f) =
      sqlite_execute [''id'', ''genre''] books (\<lambda>q. False) (\<lambda>q. Inl OperationalError)"
    by (simp add: books_facet_def example_facet_def example_ds_def books_execute_def)
  have rc: "row_count ?f = None \<or> row_count ?f = Some (int (length books))"
    by (simp add: books_facet_def example_facet_def)
  have sz: "default_facet_size (ds ?f) = 5"
    by (simp add: books_facet_def example_facet_def example_ds_def)
  have sc: "simple_configs [] = Inr []" by simp
  from ColumnFacet_suggest_iff[OF ex rc _ _ get_configs_books sc]
  obtain suggested where s: "ColumnFacet_suggest example_utils ?f = Inr suggested"
    and iff: "\<forall>c \<in> set [''id'', ''genre'']. JStr c \<notin> set [] \<longrightarrow>
        (c \<in> sf_name ` set suggested \<longleftrightarrow>
           \<not> False
           \<and> 1 < int (num_distinct books c)
           \<and> int (num_distinct books c) \<le> default_facet_size (ds ?f)
           \<and> int (num_distinct books c) < int (length books))"
    by auto
  from iff have "''genre'' \<in> sf_name ` set suggested"
    by (simp add: num_distinct_genre sz length_books)
  moreover from iff have "''id'' \<notin> sf_name ` set suggested"
    by (simp add: num_distinct_id sz length_books)
  ultimately show ?thesis
    using ex s get_configs_books by (auto simp: books_facet_def example_facet_def)
qed

lemma length_column_groups: "length (column_groups base c) = num_distinct base c"
  by (simp add: column_groups_def num_distinct_def length_sql_distinct)

lemma ColumnFacet_rows_loop_groups:
  "ColumnFacet_rows_loop u self qs c ex
      (map (\<lambda>g. [(''value'', fst g), (''count'', SqlInt (int (snd g)))]) gs) =
     Inr (map (\<lambda>g. ColumnFacet_value u self qs c ex (fst g) (SqlInt (int (snd g)))) gs)"
  by (induction gs) (auto simp: row_getitem_def)

lemma row_values_groups:
  "row_values (map (\<lambda>g. [(''value'', fst g), (''count'', SqlInt (int (snd g)))]) gs) = Inr (map fst gs)"
  by (induction gs) (auto simp: row_getitem_def)

lemma slice_to_limit:
  "0 \<le> k \<Longrightarrow> slice_to (map f (sql_limit (k + 1) xs)) k = map f (take (nat k) xs)"
  by (simp add: slice_to_def sql_limit_def take_map min_def)

lemma length_limit_gt:
  "0 \<le> k \<Longrightarrow> (k < int (length (sql_limit (k + 1) xs))) = (k < int (length xs))"
  by (auto simp: sql_limit_def)

lemma ColumnFacet_step_reference:
  assumes ex: "execute (ds self) = sqlite_execute cols base interrupts other"
    and size: "0 \<le> facet_size"
    and c: "config_column (config sc) = Inr (JStr c)" "c \<in> set cols"
  shows "ColumnFacet_step u self qs facet_size sc (frs, to) =
     (if interrupts (ColumnFacetSql c (sql self) (facet_size + 1)) then Inr (frs, to @ [c])
      else Inr (frs(c \<mapsto>
             \<lparr>fr_name = c, fr_type = ''column'', fr_hideable = (source sc \<noteq> ''metadata''),
              fr_toggle_url = path_with_removed_args u (request self) [(''_facet'', c)],
              fr_results = map (\<lambda>g. ColumnFacet_value u self qs c
                    (if str_truthy (table self)
                     then expand_foreign_keys (ds self) (database self) (the (table self)) c
                            (map fst (take (nat facet_size) (column_groups base c)))
                     else Map.empty) (fst g) (SqlInt (int (snd g))))
                  (take (nat facet_size) (column_groups base c)),
              fr_truncated = (facet_size < int (num_distinct base c))\<rparr>), to))"
  using c size
  by (simp add: ColumnFacet_step_def ex sqlite_execute_def slice_to_limit length_limit_gt
      row_values_groups ColumnFacet_rows_loop_groups length_column_groups Let_def)


lemma ColumnFacet_loop_reference:
  fixes R :: "bool \<Rightarrow> string \<Rightarrow> facet_result"
    and u :: utils and self :: facet and qs :: "(string \<times> string) list"
    and facet_size :: int and base :: "row list"
  defines "R \<equiv> \<lambda>h c.
             \<lparr>fr_name = c, fr_type = ''column'', fr_hideable = h,
              fr_toggle_url = path_with_removed_args u (request self) [(''_facet'', c)],
              fr_results = map (\<lambda>g. ColumnFacet_value u self qs c
                    (if str_truthy (table self)
                     then expand_foreign_keys (ds self) (database self) (the (table self)) c
                            (map fst (take (nat facet_size) (column_groups base c)))
                     else Map.empty) (fst g) (SqlInt (int (snd g))))
                  (take (nat facet_size) (column_groups base c)),
              fr_truncated = (facet_size < int (num_distinct base c))\<rparr>"
  assumes ex: "execute (ds self) = sqlite_execute cols base interrupts other"
    and size: "0 \<le> facet_size"
    and names: "list_all2 (\<lambda>sc c. config_column (config sc) = Inr (JStr c)) configs names"
    and known: "set names \<subseteq> set cols"
  shows "\<exists>frs to. ColumnFacet_loop u self qs facet_size configs (frs0, to0) = Inr (frs, to)
     \<and> to = to0 @ filter (\<lambda>c. interrupts (ColumnFacetSql c (sql self) (facet_size + 1))) names
     \<and> (\<forall>c. c \<in> set names \<and> \<not> interrupts (ColumnFacetSql c (sql self) (facet_size + 1))
            \<longrightarrow> (\<exists>h. frs c = Some (R h c)))
     \<and> (\<forall>c. \<not> (c \<in> set names \<and> \<not> interrupts (ColumnFacetSql c (sql self) (facet_size + 1)))
            \<longrightarrow> frs c = frs0 c)"
  using names known
proof (induction configs names arbitrary: frs0 to0 rule: list_all2_induct)
  case Nil
  then show ?case by simp
next
  case (Cons sc configs c names)
  have c: "config_column (config sc) = Inr (JStr c)" "c \<in> set cols"
    using Cons by auto
  have known': "set names \<subseteq> set cols" using Cons.prems by simp
  have step: "ColumnFacet_step u self qs facet_size sc (frs0, to0) =
     (if interrupts (ColumnFacetSql c (sql self) (facet_size + 1)) then Inr (frs0, to0 @ [c])
      else Inr (frs0(c \<mapsto> R (source sc \<noteq> ''metadata'') c), to0))"
    unfolding R_def by (rule ColumnFacet_step_reference[OF ex size c])
  show ?case
  proof (cases "interrupts (ColumnFacetSql c (sql self) (facet_size + 1))")
    case True
    from Cons.IH[OF known', of frs0 "to0 @ [c]"]
    obtain frs to where l: "ColumnFacet_loop u self qs facet_size configs (frs0, to0 @ [c]) = Inr (frs, to)"
      and t: "to = (to0 @ [c]) @ filter (\<lambda>c. interrupts (ColumnFacetSql c (sql self) (facet_size + 1))) names"
      and s: "\<forall>c. c \<in> set names \<and> \<not> interrupts (ColumnFacetSql c (sql self) (facet_size + 1))
            \<longrightarrow> (\<exists>h. frs c = Some (R h c))"
      and k: "\<forall>c. \<not> (c \<in> set names \<and> \<not> interrupts (ColumnFacetSql c (sql self) (facet_size + 1)))
            \<longrightarrow> frs c = frs0 c"
      by blast
    have "ColumnFacet_loop u self qs facet_size (sc # configs) (frs0, to0) = Inr (frs, to)"
      using step True l by simp
    moreover have "to = to0 @ filter (\<lambda>c. interrupts (ColumnFacetSql c (sql self) (facet_size + 1))) (c # names)"
      using t True by simp
    moreover have "\<forall>x. x \<in> set (c # names) \<and> \<not> interrupts (ColumnFacetSql x (sql self) (facet_size + 1))
            \<longrightarrow> (\<exists>h. frs x = Some (R h x))"
      using s True by auto
    moreover have "\<forall>x. \<not> (x \<in> set (c # names) \<and> \<not> interrupts (ColumnFacetSql x (sql self) (facet_size + 1)))
            \<longrightarrow> frs x = frs0 x"
      using k True by auto
    ultimately show ?thesis by blast
  next
    case False
    let ?f = "frs0(c \<mapsto> R (source sc \<noteq> ''metadata'') c)"
    from Cons.IH[OF known', of ?f to0]
    obtain frs to where l: "ColumnFacet_loop u self qs facet_size configs (?f, to0) = Inr (frs, to)"
      and t: "to = to0 @ filter (\<lambda>c. interrupts (ColumnFacetSql c (sql self) (facet_size + 1))) names"
      and s: "\<forall>c. c \<in> set names \<and> \<not> interrupts (ColumnFacetSql c (sql self) (facet_size + 1))
            \<longrightarrow> (\<exists>h. frs c = Some (R h c))"
      and k: "\<forall>x. \<not> (x \<in> set names \<and> \<not> interrupts (ColumnFacetSql x (sql self) (facet_size + 1)))
            \<longrightarrow> frs x = ?f x"
      by blast
    have "ColumnFacet_loop u self qs facet_size (sc # configs) (frs0, to0) = Inr (frs, to)"
      using step False l by simp
    moreover have "to = to0 @ filter (\<lambda>c. interrupts (ColumnFacetSql c (sql self) (facet_size + 1))) (c # names)"
      using t False by simp
    moreover have "\<forall>x. x \<in> set (c # names) \<and> \<not> interrupts (ColumnFacetSql x (sql self) (facet_size + 1))
            \<longrightarrow> (\<exists>h. frs x = Some (R h x))"
    proof (intro allI impI)
      fix x assume x: "x \<in> set (c # names) \<and> \<not> interrupts (ColumnFacetSql x (sql self) (facet_size + 1))"
      show "\<exists>h. frs x = Some (R h x)"
      proof (cases "x \<in> set names")
        case True
        with s x show ?thesis by blast
      next
        case F: False
        with x have "x = c" by simp
        with k F show ?thesis by auto
      qed
    qed
    moreover have "\<forall>x. \<not> (x \<in> set (c # names) \<and> \<not> interrupts (ColumnFacetSql x (sql self) (facet_size + 1)))
            \<longrightarrow> frs x = frs0 x"
      using k False by auto
    ultimately show ?thesis by blast
  qed
qed













lemma reference_facet_rows:
  assumes "execute d = sqlite_execute cols base interrupts other" "c \<in> set cols"
    "\<not> interrupts (ColumnFacetSql c s k)"
  shows "execute d db (ColumnFacetSql c s k) ps lim =
       Inr \<lparr>res_columns = [''value'', ''count''],
            res_rows = map (\<lambda>g. [(''value'', fst g), (''count'', SqlInt (int (snd g)))])
                         (sql_limit k (column_groups base c))\<rparr>"
  using assms by (simp add: sqlite_execute_def)

text \<open>
  C2. Let the executor be the reference executor, the display size be non-negative, and
  every configuration name a column of the base query. Then
  \<^verbatim>\<open>ColumnFacet.facet_results\<close> returns, and for every configured column whose statement is
  not interrupted the result holds at most \<open>size\<close> entries, which are the first \<open>size\<close> rows of
  the statement (limited to \<open>size + 1\<close> rows), and its \<^verbatim>\<open>truncated\<close> flag is true if and only
  if the statement returned \<open>size + 1\<close> rows, that is, if and only if the column has more
  than \<open>size\<close> distinct values (the statement leaves out the null).
\<close>

theorem ColumnFacet_truncated:
  assumes ex: "execute (ds self) = sqlite_execute cols base interrupts other"
    and size: "0 \<le> default_facet_size (ds self)"
    and cfgs: "get_configs u ''column'' self = Inr configs"
    and names: "list_all2 (\<lambda>sc c. config_column (config sc) = Inr (JStr c)) configs names"
    and known: "set names \<subseteq> set cols"
  shows "\<exists>frs to. ColumnFacet_facet_results u self = Inr (frs, to) \<and>
     (\<forall>c \<in> set names.
        \<not> interrupts (ColumnFacetSql c (sql self) (default_facet_size (ds self) + 1)) \<longrightarrow>
        (\<exists>fr r. frs c = Some fr
           \<and> execute (ds self) (database self)
                (ColumnFacetSql c (sql self) (default_facet_size (ds self) + 1))
                (params self) (Some (facet_time_limit_ms (ds self))) = Inr r
           \<and> int (length (res_rows r)) \<le> default_facet_size (ds self) + 1
           \<and> int (length (fr_results fr)) \<le> default_facet_size (ds self)
           \<and> map fv_value (fr_results fr) =
               map (\<lambda>row. cell row ''value'') (take (nat (default_facet_size (ds self))) (res_rows r))
           \<and> map fv_count (fr_results fr) =
               map (\<lambda>row. cell row ''count'') (take (nat (default_facet_size (ds self))) (res_rows r))
           \<and> (fr_truncated fr \<longleftrightarrow> int (length (res_rows r)) = default_facet_size (ds self) + 1)
           \<and> (fr_truncated fr \<longleftrightarrow> default_facet_size (ds self) < int (num_distinct base c))))"
proof -
  let ?size = "default_facet_size (ds self)"
  let ?qs = "get_querystring_pairs self"
  from ColumnFacet_loop_reference[OF ex size names known, of u ?qs Map.empty "[]"]
  obtain frs to where
    l: "ColumnFacet_loop u self ?qs ?size configs (Map.empty, []) = Inr (frs, to)"
    and s: "\<forall>c. c \<in> set names \<and> \<not> interrupts (ColumnFacetSql c (sql self) (?size + 1)) \<longrightarrow>
        (\<exists>h. frs c = Some
             \<lparr>fr_name = c, fr_type = ''column'', fr_hideable = h,
              fr_toggle_url = path_with_removed_args u (request self) [(''_facet'', c)],
              fr_results = map (\<lambda>g. ColumnFacet_value u self ?qs c
                    (if str_truthy (table self)
                     then expand_foreign_keys (ds self) (database self) (the (table self)) c
                            (map fst (take (nat ?size) (column_groups base c)))
                     else Map.empty) (fst g) (SqlInt (int (snd g))))
                  (take (nat ?size) (column_groups base c)),
              fr_truncated = (?size < int (num_distinct base c))\<rparr>)"
    by blast
  have whole: "ColumnFacet_facet_results u self = Inr (frs, to)"
    using cfgs l by (simp add: ColumnFacet_facet_results_def)
  have "\<exists>fr r. frs c = Some fr
           \<and> execute (ds self) (database self) (ColumnFacetSql c (sql self) (?size + 1))
                (params self) (Some (facet_time_limit_ms (ds self))) = Inr r
           \<and> int (length (res_rows r)) \<le> ?size + 1
           \<and> int (length (fr_results fr)) \<le> ?size
           \<and> map fv_value (fr_results fr) =
               map (\<lambda>row. cell row ''value'') (take (nat ?size) (res_rows r))
           \<and> map fv_count (fr_results fr) =
               map (\<lambda>row. cell row ''count'') (take (nat ?size) (res_rows r))
           \<and> (fr_truncated fr \<longleftrightarrow> int (length (res_rows r)) = ?size + 1)
           \<and> (fr_truncated fr \<longleftrightarrow> ?size < int (num_distinct base c))"
    if c: "c \<in> set names" and ni: "\<not> interrupts (ColumnFacetSql c (sql self) (?size + 1))" for c
  proof -
    from s c ni obtain h where fr: "frs c = Some
             \<lparr>fr_name = c, fr_type = ''column'', fr_hideable = h,
              fr_toggle_url = path_with_removed_args u (request self) [(''_facet'', c)],
              fr_results = map (\<lambda>g. ColumnFacet_value u self ?qs c
                    (if str_truthy (table self)
                     then expand_foreign_keys (ds self) (database self) (the (table self)) c
                            (map fst (take (nat ?size) (column_groups base c)))
                     else Map.empty) (fst g) (SqlInt (int (snd g))))
                  (take (nat ?size) (column_groups base c)),
              fr_truncated = (?size < int (num_distinct base c))\<rparr>"
      by blast
    have cc: "c \<in> set cols" using c known by auto
    note r = reference_facet_rows[OF ex cc ni, of "database self" "params self" "Some (facet_time_limit_ms (ds self))"]
    have len: "length (column_groups base c) = num_distinct base c"
      by (rule length_column_groups)
    show ?thesis
      unfolding fr r using size len
      by (auto simp: sql_limit_def take_map min_def ColumnFacet_value_def Let_def cell_def o_def)
  qed
  with whole show ?thesis by blast
qed


theorem ColumnFacet_truncated_witness:
  "execute (ds (books_facet (\<lambda>q. False) [(''_facet'', ''id'')])) =
      sqlite_execute [''id'', ''genre''] books (\<lambda>q. False) (\<lambda>q. Inl OperationalError)
   \<and> 0 \<le> default_facet_size (ds (books_facet (\<lambda>q. False) [(''_facet'', ''id'')]))
   \<and> get_configs example_utils ''column'' (books_facet (\<lambda>q. False) [(''_facet'', ''id'')]) =
        Inr [\<lparr>source = ''request'', config = JObj [(''simple'', JStr ''id'')]\<rparr>]
   \<and> list_all2 (\<lambda>sc c. config_column (config sc) = Inr (JStr c))
        [\<lparr>source = ''request'', config = JObj [(''simple'', JStr ''id'')]\<rparr>] [''id'']
   \<and> set [''id''] \<subseteq> set [''id'', ''genre'']
   \<and> (\<exists>frs to fr. ColumnFacet_facet_results example_utils
                       (books_facet (\<lambda>q. False) [(''_facet'', ''id'')]) = Inr (frs, to)
         \<and> frs ''id'' = Some fr \<and> fr_truncated fr \<and> int (length (fr_results fr)) \<le> 5)"
proof -
  let ?f = "books_facet (\<lambda>q. False) [(''_facet'', ''id'')]"
  have ex: "execute (ds ?f) =
      sqlite_execute [''id'', ''genre''] books (\<lambda>q. False) (\<lambda>q. Inl OperationalError)"
    by (simp add: books_facet_def example_facet_def example_ds_def books_execute_def)
  have sz: "default_facet_size (ds ?f) = 5"
    by (simp add: books_facet_def example_facet_def example_ds_def)
  have size: "0 \<le> default_facet_size (ds ?f)" by (simp add: sz)
  have cfg: "get_configs example_utils ''column'' ?f =
        Inr [\<lparr>source = ''request'', config = JObj [(''simple'', JStr ''id'')]\<rparr>]"
    by (simp add: get_configs_def books_facet_def example_facet_def load_facet_configs_def
        metadata_facets_def parse_qs_def key_step_def startswith_def value_config_def
        setdefault_append_def example_utils_def)
  have la: "list_all2 (\<lambda>sc c. config_column (config sc) = Inr (JStr c))
        [\<lparr>source = ''request'', config = JObj [(''simple'', JStr ''id'')]\<rparr>] [''id'']"
    by (simp add: config_column_def)
  have kn: "set [''id''] \<subseteq> set [''id'', ''genre'']" by simp
  from ColumnFacet_truncated[OF ex size cfg la kn]
  have "\<exists>frs to fr. ColumnFacet_facet_results example_utils ?f = Inr (frs, to)
         \<and> frs ''id'' = Some fr \<and> fr_truncated fr \<and> int (length (fr_results fr)) \<le> 5"
    by (simp add: sz num_distinct_id) blast
  with ex size cfg la kn show ?thesis by blast
qed

section \<open>Properties of the suggestions\<close>

lemma get_configs_no_request:
  "get_configs example_utils t (example_facet ex fks tb []) = Inr []"
  by (simp add: get_configs_def example_facet_def load_facet_configs_def metadata_facets_def parse_qs_def)

lemma docs_execute_probe:
  "execute (ds (example_facet (docs_execute nf) Map.empty ''docs'' [])) db (ArraySuggestSql c s) ps lim =
     Inr \<lparr>res_columns = [''json_type(tags)''],
          res_rows =
            (if nf
             then [[(''json_type(tags)'', SqlNull)], [(''json_type(tags)'', SqlText ''array'')]]
             else [[(''json_type(tags)'', SqlText ''array'')], [(''json_type(tags)'', SqlNull)]])\<rparr>"
  by (simp add: example_facet_def example_ds_def docs_execute_def)

lemma docs_columns:
  "get_columns (example_facet (docs_execute nf) Map.empty ''docs'' []) = Inr [''tags'']"
  by (simp add: get_columns_def example_facet_def example_ds_def docs_execute_def)

text \<open>
  When the row with the array comes first the column is proposed: the tuple of types
  is \<^verbatim>\<open>("array", None)\<close>.
\<close>

lemma ArrayFacet_suggest_array_first:
  "ArrayFacet_suggest example_utils (example_facet (docs_execute False) Map.empty ''docs'' []) =
     Inr [\<lparr>sf_name = ''tags'', sf_type = Some ''array'',
           sf_toggle_url = ''http://localhost/db/docs?_facet_array=tags''\<rparr>]"
proof -
  let ?f = "example_facet (docs_execute False) Map.empty ''docs'' []"
  have l: "ArrayFacet_suggest_loop example_utils ?f [] [''tags''] [] =
      Inr [\<lparr>sf_name = ''tags'', sf_type = Some ''array'',
            sf_toggle_url = absolute_url (ds ?f) (request ?f)
              (path_with_added_args example_utils (request ?f) [(''_facet_array'', SqlText ''tags'')])\<rparr>]"
    by (simp add: docs_execute_probe row_first_def)
  have u: "absolute_url (ds ?f) (request ?f)
              (path_with_added_args example_utils (request ?f) [(''_facet_array'', SqlText ''tags'')])
           = ''http://localhost/db/docs?_facet_array=tags''"
    by (simp add: example_facet_def example_ds_def example_utils_def with_query_def urlencode_def
          path_with_added_args_of_def parse_qsl_def urlencode_text_def)
  show ?thesis
    by (simp add: ArrayFacet_suggest_def docs_columns get_configs_no_request l u
        del: ArrayFacet_suggest_loop.simps)
qed

text \<open>
  C9. The same two rows in the other order: the column \<^verbatim>\<open>tags\<close> holds a null and a
  JSON array, so the set of kinds observed is \<^verbatim>\<open>{array, null}\<close>, and nothing is
  proposed. The tuple of types is \<^verbatim>\<open>(None, "array")\<close>, which is neither of the two
  tuples the method compares it with.
\<close>

theorem ArrayFacet_suggest_null_first:
  "ArrayFacet_suggest example_utils (example_facet (docs_execute True) Map.empty ''docs'' []) = Inr []"
proof -
  let ?f = "example_facet (docs_execute True) Map.empty ''docs'' []"
  have l: "ArrayFacet_suggest_loop example_utils ?f [] [''tags''] [] = Inr []"
    by (simp add: docs_execute_probe row_first_def)
  show ?thesis
    by (simp add: ArrayFacet_suggest_def docs_columns get_configs_no_request l
        del: ArrayFacet_suggest_loop.simps)
qed

text \<open>
  What \<^verbatim>\<open>ManyToManyFacet.suggest\<close> proposes when every table with an incoming edge is
  listed and, if it has exactly two outgoing edges, has one that leads to another
  table: for each incoming edge whose table has exactly two outgoing edges, the
  target of the first outgoing edge that does not lead to the base table, unless the
  pair \<^verbatim>\<open>("_facet_m2m", target)\<close> is in the query string. A base table without an entry
  gets no suggestion.
\<close>

lemma ManyToManyFacet_suggest_loop_names:
  assumes "\<forall>fk \<in> set inc. \<exists>other. all_fks (fk_other_table fk) = Some other \<and>
             (length (outgoing other) = 2 \<longrightarrow>
                (\<exists>ob \<in> set (outgoing other). Some (fk_other_table ob) \<noteq> table self))"
  shows "\<exists>sugg. ManyToManyFacet_suggest_loop u self all_fks args inc acc = Inr sugg
       \<and> map sf_name sugg = map sf_name acc @
           concat (map (\<lambda>fk.
             case all_fks (fk_other_table fk) of
               None \<Rightarrow> []
             | Some other \<Rightarrow>
                 if length (outgoing other) = 2 then
                   (let d = fk_other_table
                              (hd (filter (\<lambda>t. Some (fk_other_table t) \<noteq> table self) (outgoing other)))
                    in if (''_facet_m2m'', d) \<in> set args then [] else [d])
                 else []) inc)"
  using assms
proof (induction inc arbitrary: acc)
  case Nil
  then show ?case by simp
next
  case (Cons fk inc)
  then obtain other where o: "all_fks (fk_other_table fk) = Some other"
    and two: "length (outgoing other) = 2 \<longrightarrow>
                (\<exists>ob \<in> set (outgoing other). Some (fk_other_table ob) \<noteq> table self)"
    by auto
  have rest: "\<forall>fk \<in> set inc. \<exists>other. all_fks (fk_other_table fk) = Some other \<and>
             (length (outgoing other) = 2 \<longrightarrow>
                (\<exists>ob \<in> set (outgoing other). Some (fk_other_table ob) \<noteq> table self))"
    using Cons.prems by simp
  show ?case
  proof (cases "length (outgoing other) = 2")
    case False
    with o Cons.IH[OF rest, of acc] show ?thesis by simp
  next
    case True
    with two have "filter (\<lambda>t. Some (fk_other_table t) \<noteq> table self) (outgoing other) \<noteq> []"
      by (auto simp: filter_empty_conv)
    then obtain t ts where f: "filter (\<lambda>t. Some (fk_other_table t) \<noteq> table self) (outgoing other) = t # ts"
      by (cases "filter (\<lambda>t. Some (fk_other_table t) \<noteq> table self) (outgoing other)") auto
    then have d: "destination_of (table self) (outgoing other) = Inr (fk_other_table t)"
      by (simp add: destination_of_def)
    show ?thesis
    proof (cases "(''_facet_m2m'', fk_other_table t) \<in> set args")
      case T: True
      with o True d f Cons.IH[OF rest, of acc] show ?thesis by simp
    next
      case F: False
      with o True d f
        Cons.IH[OF rest, of "acc @ [\<lparr>sf_name = fk_other_table t, sf_type = Some ''m2m'',
                          sf_toggle_url = absolute_url (ds self) (request self)
                            (path_with_added_args u (request self)
                               [(''_facet_m2m'', SqlText (fk_other_table t))])\<rparr>]"]
      show ?thesis by simp
    qed
  qed
qed

lemma ManyToManyFacet_suggest_no_entry:
  "table_entry (get_all_foreign_keys (ds self) (database self)) (table self) = None \<Longrightarrow>
   ManyToManyFacet_suggest u self = Inr []"
  by (simp add: ManyToManyFacet_suggest_def)

text \<open>
  The foreign keys of the specification's scenario: \<^verbatim>\<open>book_tags\<close> has an incoming edge
  to \<^verbatim>\<open>books\<close> and exactly two outgoing edges, so \<^verbatim>\<open>tags\<close> is proposed.
\<close>

lemma ManyToManyFacet_suggest_book_tags:
  "ManyToManyFacet_suggest example_utils (example_facet failing_execute book_tags_fks ''books'' [])
     = Inr [\<lparr>sf_name = ''tags'', sf_type = Some ''m2m'',
             sf_toggle_url = ''http://localhost/db/books?_facet_m2m=tags''\<rparr>]"
  by (simp add: ManyToManyFacet_suggest_def example_facet_def example_ds_def book_tags_fks_def
      table_entry_def destination_of_def get_querystring_pairs_def example_utils_def
      with_query_def urlencode_def path_with_added_args_of_def parse_qsl_def urlencode_text_def)

text \<open>
  C7. \<^verbatim>\<open>friendships\<close> has an incoming edge to the base table \<^verbatim>\<open>people\<close> and exactly two
  outgoing edges, one of which targets \<^verbatim>\<open>people\<close>; the other targets \<^verbatim>\<open>people\<close> too.
  No outgoing edge leads to another table, and the method raises \<^verbatim>\<open>IndexError\<close>
  instead of proposing a destination.
\<close>

theorem ManyToManyFacet_suggest_self_join:
  "ManyToManyFacet_suggest example_utils (example_facet failing_execute friendships_fks ''people'' [])
     = Inl IndexError"
  by (simp add: ManyToManyFacet_suggest_def example_facet_def example_ds_def friendships_fks_def
      table_entry_def destination_of_def get_querystring_pairs_def)

text \<open>
  C5, as the code has it. For a column that is not already enabled:
  in \<^verbatim>\<open>ArrayFacet.suggest\<close> and \<^verbatim>\<open>DateFacet.suggest\<close> a probe that fails with
  \<^verbatim>\<open>sqlite3.OperationalError\<close> is swallowed as a timeout is: the column is not proposed and
  the loop goes on with the remaining columns. \<^verbatim>\<open>ColumnFacet.suggest\<close> swallows the
  timeout only: any other failure of its probe leaves the method, which then proposes
  nothing.
\<close>

theorem suggest_probe_failure:
  assumes "JStr c \<notin> set en"
  shows "(execute (ds self) (database self) (ArraySuggestSql c (sql self)) (params self)
            (Some (facet_suggest_time_limit_ms (ds self))) = Inl e
          \<and> (e = QueryInterrupted \<or> e = OperationalError)
          \<longrightarrow> ArrayFacet_suggest_loop u self en (c # cols) acc =
              ArrayFacet_suggest_loop u self en cols acc)
       \<and> (execute (ds self) (database self) (DateSuggestSql c (sql self)) (params self)
            (Some (facet_suggest_time_limit_ms (ds self))) = Inl e
          \<and> (e = QueryInterrupted \<or> e = OperationalError)
          \<longrightarrow> DateFacet_suggest_loop u self en (c # cols) acc =
              DateFacet_suggest_loop u self en cols acc)
       \<and> (execute (ds self) (database self) (ColumnSuggestSql c (sql self) (facet_size + 1))
            (params self) (Some (facet_suggest_time_limit_ms (ds self))) = Inl e
          \<longrightarrow> ColumnFacet_suggest_loop u self rc facet_size en (c # cols) acc =
              (if e = QueryInterrupted
               then ColumnFacet_suggest_loop u self rc facet_size en cols acc
               else Inl e))"
  using assms by simp

lemma failing_execute_probe:
  "execute (ds (example_facet failing_execute fks t pairs)) db (ColumnSuggestSql c s k) ps lim = Inl OperationalError"
  "execute (ds (example_facet failing_execute fks t pairs)) db (ArraySuggestSql c s) ps lim = Inl OperationalError"
  "execute (ds (example_facet failing_execute fks t pairs)) db (DateSuggestSql c s) ps lim = Inl OperationalError"
  by (simp_all add: example_facet_def example_ds_def failing_execute_def)

lemma failing_columns:
  "get_columns (example_facet failing_execute fks t pairs) = Inr [''id'', ''genre'']"
  by (simp add: get_columns_def example_facet_def example_ds_def failing_execute_def)

lemma failing_row_count:
  "get_row_count (example_facet failing_execute fks t pairs) = Inr 10"
  by (simp add: get_row_count_def example_facet_def example_ds_def failing_execute_def row_first_def)

text \<open>
  The claim as stated fails for \<^verbatim>\<open>ColumnFacet.suggest\<close>: with probes that fail with an
  SQL error the method raises that error, where \<^verbatim>\<open>ArrayFacet.suggest\<close> returns an empty
  list of suggestions.
\<close>

theorem suggest_probe_failure_counterexample:
  "ColumnFacet_suggest example_utils (example_facet failing_execute Map.empty ''books'' [])
     = Inl OperationalError
   \<and> ArrayFacet_suggest example_utils (example_facet failing_execute Map.empty ''books'' []) = Inr []"
proof -
  let ?f = "example_facet failing_execute Map.empty ''books'' []"
  have c: "ColumnFacet_suggest_loop example_utils ?f 10 k [] [''id'', ''genre''] [] = Inl OperationalError" for k
    by (simp add: failing_execute_probe)
  have a: "ArrayFacet_suggest_loop example_utils ?f [] [''id'', ''genre''] [] = Inr []"
    by (simp add: failing_execute_probe)
  show ?thesis
    by (simp add: ColumnFacet_suggest_def ArrayFacet_suggest_def failing_columns failing_row_count
        get_configs_no_request c a
        del: ColumnFacet_suggest_loop.simps ArrayFacet_suggest_loop.simps)
qed

theorem suggest_probe_failure_witness:
  "JStr ''id'' \<notin> set []
   \<and> execute (ds (example_facet failing_execute Map.empty ''books'' [])) ''db''
        (ArraySuggestSql ''id'' ''select * from [books]'') [] (Some 50) = Inl OperationalError
   \<and> execute (ds (example_facet failing_execute Map.empty ''books'' [])) ''db''
        (DateSuggestSql ''id'' ''select * from [books]'') [] (Some 50) = Inl OperationalError
   \<and> execute (ds (example_facet failing_execute Map.empty ''books'' [])) ''db''
        (ColumnSuggestSql ''id'' ''select * from [books]'' (5 + 1)) [] (Some 50) = Inl OperationalError
   \<and> ArrayFacet_suggest_loop example_utils (example_facet failing_execute Map.empty ''books'' []) []
        [''id''] [] = Inr []
   \<and> DateFacet_suggest_loop example_utils (example_facet failing_execute Map.empty ''books'' []) []
        [''id''] [] = Inr []
   \<and> ColumnFacet_suggest_loop example_utils (example_facet failing_execute Map.empty ''books'' [])
        10 5 [] [''id''] [] = Inl OperationalError"
proof -
  let ?f = "example_facet failing_execute Map.empty ''books'' []"
  have n: "JStr ''id'' \<notin> set []" by simp
  have f: "database ?f = ''db''" "sql ?f = ''select * from [books]''" "params ?f = []"
    "facet_suggest_time_limit_ms (ds ?f) = 50"
    by (simp_all add: example_facet_def example_ds_def)
  from suggest_probe_failure[OF n, of ?f OperationalError example_utils "[]" "[]" 5 10]
  show ?thesis
    by (simp add: f failing_execute_probe
        del: ColumnFacet_suggest_loop.simps(2) ArrayFacet_suggest_loop.simps(2)
          DateFacet_suggest_loop.simps(2))
qed

section \<open>Failures of a facet's statement\<close>

text \<open>
  C4, as the code has it. In each of the four \<^verbatim>\<open>facet_results\<close> methods, when the
  statement of a configured facet raises \<^verbatim>\<open>QueryInterrupted\<close> the facet's name is appended
  to the timed-out list, the result mapping is left as it was, and the remaining
  configurations are processed as usual. Any other error of the statement is not
  caught: the whole call fails with that error.
\<close>

theorem facet_results_query_failure:
  assumes "config_column (config sc) = Inr (JStr c)"
  shows "(execute (ds self) (database self) (ColumnFacetSql c (sql self) (facet_size + 1))
            (params self) (Some (facet_time_limit_ms (ds self))) = Inl e
          \<longrightarrow> ColumnFacet_loop u self qs facet_size (sc # rest) (frs, to) =
              (if e = QueryInterrupted
               then ColumnFacet_loop u self qs facet_size rest (frs, to @ [c])
               else Inl e))
       \<and> (execute (ds self) (database self) (ArrayFacetSql c (sql self) (facet_size + 1))
            (params self) (Some (facet_time_limit_ms (ds self))) = Inl e
          \<longrightarrow> ArrayFacet_loop u self facet_size (sc # rest) (frs, to) =
              (if e = QueryInterrupted
               then ArrayFacet_loop u self facet_size rest (frs, to @ [c])
               else Inl e))
       \<and> (execute (ds self) (database self) (DateFacetSql c (sql self) (facet_size + 1))
            (params self) (Some (facet_time_limit_ms (ds self))) = Inl e
          \<longrightarrow> DateFacet_loop u self facet_size (sc # rest) (frs, to) =
              (if e = QueryInterrupted
               then DateFacet_loop u self facet_size rest (frs, to @ [c])
               else Inl e))
       \<and> (find_middle_table all_fks (JStr c) incoming_fks = Inr (Some (fks, middle_table))
          \<and> fk_columns (table self) c fks (None, None, None) = (Some ct, Some pk, Some cd)
          \<and> ct \<noteq> [] \<and> pk \<noteq> [] \<and> cd \<noteq> []
          \<and> execute (ds self) (database self)
                (ManyToManyFacetSql (sql self) (facet_size + 1) middle_table cd ct pk)
                (params self) (Some (facet_time_limit_ms (ds self))) = Inl e
          \<longrightarrow> ManyToManyFacet_loop u self all_fks incoming_fks args facet_size (sc # rest) (frs, to) =
              (if e = QueryInterrupted
               then ManyToManyFacet_loop u self all_fks incoming_fks args facet_size rest (frs, to @ [c])
               else Inl e))"
  using assms
  by (simp add: ColumnFacet_step_def ArrayFacet_step_def DateFacet_step_def str_truthy_def)


lemma get_configs_nosuch:
  "get_configs example_utils ''column'' (books_facet i [(''_facet'', ''nosuch'')]) =
     Inr [\<lparr>source = ''request'', config = JObj [(''simple'', JStr ''nosuch'')]\<rparr>]"
  by (simp add: get_configs_def books_facet_def example_facet_def load_facet_configs_def
      metadata_facets_def parse_qs_def key_step_def startswith_def value_config_def
      setdefault_append_def example_utils_def)

lemma books_execute_nosuch:
  "execute (ds (books_facet i pairs)) db (ColumnFacetSql ''nosuch'' s k) ps lim =
     (if i (ColumnFacetSql ''nosuch'' s k) then Inl QueryInterrupted else Inl OperationalError)"
  by (simp add: books_facet_def example_facet_def example_ds_def books_execute_def sqlite_execute_def)

text \<open>
  The claim as stated fails: a facet on a column the base query does not have makes the
  statement fail with an SQL error, and the call raises it; only when the statement is
  interrupted is the name recorded as timed out.
\<close>

theorem facet_results_query_failure_counterexample:
  "ColumnFacet_facet_results example_utils (books_facet (\<lambda>q. False) [(''_facet'', ''nosuch'')])
     = Inl OperationalError
   \<and> ColumnFacet_facet_results example_utils (books_facet (\<lambda>q. True) [(''_facet'', ''nosuch'')])
     = Inr (Map.empty, [''nosuch''])"
  by (simp add: ColumnFacet_facet_results_def get_configs_nosuch ColumnFacet_step_def
      config_column_def books_execute_nosuch)

lemma failing_execute_facet:
  "execute (ds (example_facet failing_execute fks t pairs)) db (ColumnFacetSql c s k) ps lim = Inl OperationalError"
  "execute (ds (example_facet failing_execute fks t pairs)) db (ArrayFacetSql c s k) ps lim = Inl OperationalError"
  "execute (ds (example_facet failing_execute fks t pairs)) db (DateFacetSql c s k) ps lim = Inl OperationalError"
  "execute (ds (example_facet failing_execute fks t pairs)) db (ManyToManyFacetSql s k m cd ct pk) ps lim = Inl OperationalError"
  by (simp_all add: example_facet_def example_ds_def failing_execute_def)

theorem facet_results_query_failure_witness:
  "config_column (config \<lparr>source = ''request'', config = JObj [(''simple'', JStr ''tags'')]\<rparr>)
     = Inr (JStr ''tags'')
   \<and> find_middle_table book_tags_fks (JStr ''tags'')
         [\<lparr>fk_other_table = ''book_tags'', fk_column = ''id'', fk_other_column = ''book_id''\<rparr>]
       = Inr (Some ([\<lparr>fk_other_table = ''books'', fk_column = ''book_id'', fk_other_column = ''id''\<rparr>,
                     \<lparr>fk_other_table = ''tags'', fk_column = ''tag_id'', fk_other_column = ''id''\<rparr>],
                    ''book_tags''))
   \<and> ColumnFacet_loop example_utils (example_facet failing_execute book_tags_fks ''books'' []) [] 5
         [\<lparr>source = ''request'', config = JObj [(''simple'', JStr ''tags'')]\<rparr>] (Map.empty, [])
       = Inl OperationalError
   \<and> ArrayFacet_loop example_utils (example_facet failing_execute book_tags_fks ''books'' []) 5
         [\<lparr>source = ''request'', config = JObj [(''simple'', JStr ''tags'')]\<rparr>] (Map.empty, [])
       = Inl OperationalError
   \<and> DateFacet_loop example_utils (example_facet failing_execute book_tags_fks ''books'' []) 5
         [\<lparr>source = ''request'', config = JObj [(''simple'', JStr ''tags'')]\<rparr>] (Map.empty, [])
       = Inl OperationalError
   \<and> ManyToManyFacet_loop example_utils (example_facet failing_execute book_tags_fks ''books'' [])
         book_tags_fks
         [\<lparr>fk_other_table = ''book_tags'', fk_column = ''id'', fk_other_column = ''book_id''\<rparr>]
         [] 5
         [\<lparr>source = ''request'', config = JObj [(''simple'', JStr ''tags'')]\<rparr>] (Map.empty, [])
       = Inl OperationalError"
proof -
  let ?f = "example_facet failing_execute book_tags_fks ''books'' []"
  let ?sc = "\<lparr>source = ''request'', config = JObj [(''simple'', JStr ''tags'')]\<rparr>"
  let ?inc = "[\<lparr>fk_other_table = ''book_tags'', fk_column = ''id'', fk_other_column = ''book_id''\<rparr>]"
  let ?fks = "[\<lparr>fk_other_table = ''books'', fk_column = ''book_id'', fk_other_column = ''id''\<rparr>,
               \<lparr>fk_other_table = ''tags'', fk_column = ''tag_id'', fk_other_column = ''id''\<rparr>]"
  have c: "config_column (config ?sc) = Inr (JStr ''tags'')"
    by (simp add: config_column_def)
  have m: "find_middle_table book_tags_fks (JStr ''tags'') ?inc = Inr (Some (?fks, ''book_tags''))"
    by (simp add: book_tags_fks_def)
  have k: "fk_columns (table ?f) ''tags'' ?fks (None, None, None)
            = (Some ''book_id'', Some ''id'', Some ''tag_id'')"
    by (simp add: example_facet_def)
  from facet_results_query_failure[OF c, of ?f 5 OperationalError example_utils "[]" "[]"
      Map.empty "[]" book_tags_fks ?inc ?fks "''book_tags''" "''book_id''" "''id''" "''tag_id''" "[]"]
  show ?thesis
    using c m k by (simp add: failing_execute_facet
        del: ColumnFacet_loop.simps(2) ArrayFacet_loop.simps(2) DateFacet_loop.simps(2)
          ManyToManyFacet_loop.simps(2))
qed

section \<open>The selection token\<close>

lemma hex_value_digits: "\<forall>d \<in> set (upt 0 16). hex_value (''0123456789abcdef'' ! d) = Some d"
  by code_simp

lemma hex_value_digit: "d < 16 \<Longrightarrow> hex_value (''0123456789abcdef'' ! d) = Some d"
  using hex_value_digits by simp


lemma hex4_small:
  "n < 256 \<Longrightarrow>
   hex4 n = [CHR ''0'', CHR ''0'', ''0123456789abcdef'' ! (n div 16), ''0123456789abcdef'' ! (n mod 16)]"
  by (simp add: hex4_def)

lemma hex4_value_small:
  assumes "n < 256"
  shows "hex4_value CHR ''0'' CHR ''0'' (''0123456789abcdef'' ! (n div 16))
           (''0123456789abcdef'' ! (n mod 16)) = Some n"
proof -
  have z: "hex_value CHR ''0'' = Some 0" by (simp add: hex_value_def)
  have b: "n div 16 < 16" using assms by simp
  have c: "n mod 16 < 16" by simp
  show ?thesis
    by (simp add: hex4_value_def z hex_value_digit[OF b] hex_value_digit[OF c])
qed

lemma scan_string_escape_char:
  "scan_string (escape_char c @ rest) = map_option (\<lambda>sr. (c # fst sr, snd sr)) (scan_string rest)"
proof -
  have n: "(of_char c :: nat) < 256" by simp
  consider (bs) "c = CHR 0x5C" | (dq) "c = CHR 0x22" | (b) "c = CHR 0x08" | (f) "c = CHR 0x0C"
    | (n) "c = CHR 0x0A" | (r) "c = CHR 0x0D" | (t) "c = CHR 0x09"
    | (u) "c \<noteq> CHR 0x5C" "c \<noteq> CHR 0x22" "c \<noteq> CHR 0x08" "c \<noteq> CHR 0x0C" "c \<noteq> CHR 0x0A"
          "c \<noteq> CHR 0x0D" "c \<noteq> CHR 0x09" "(of_char c :: nat) < 0x20 \<or> 0x7E < (of_char c :: nat)"
    | (p) "c \<noteq> CHR 0x5C" "c \<noteq> CHR 0x22" "\<not> ((of_char c :: nat) < 0x20 \<or> 0x7E < (of_char c :: nat))"
    by blast
  then show ?thesis
  proof cases
    case u
    have e: "escape_char c @ rest =
        CHR 0x5C # CHR ''u'' # CHR ''0'' # CHR ''0'' # ''0123456789abcdef'' ! (of_char c div 16)
          # ''0123456789abcdef'' ! (of_char c mod 16) # rest"
      using u by (simp add: escape_char_def hex4_small[OF n])
    show ?thesis
      unfolding e using hex4_value_small[OF n] by simp
  next
    case p
    have "c \<noteq> CHR 0x08" "c \<noteq> CHR 0x0C" "c \<noteq> CHR 0x0A" "c \<noteq> CHR 0x0D" "c \<noteq> CHR 0x09"
      using p(3) by auto
    with p show ?thesis by (simp add: escape_char_def)
  qed (simp_all add: escape_char_def unescape_def)
qed

lemma scan_string_encoded:
  "scan_string (concat (map escape_char s) @ CHR 0x22 # rest) = Some (s, rest)"
proof (induction s)
  case Nil
  show ?case by simp
next
  case (Cons c s)
  then show ?case
    by (simp add: scan_string_escape_char del: scan_string.simps(2))
qed


lemma through_token_form:
  "through_token m c v =
     ''{'' @ encode_basestring_ascii ''column'' @ '':'' @ encode_basestring_ascii c @ '','' @
     encode_basestring_ascii ''table'' @ '':'' @ encode_basestring_ascii m @ '','' @
     encode_basestring_ascii ''value'' @ '':'' @ encode_basestring_ascii v @ ''}''"
  by (simp add: through_token_def json_dumps_def sorted_items_def)

lemma parse_members_more:
  "parse_members (Suc fuel)
     (encode_basestring_ascii k @ '':'' @ encode_basestring_ascii v @ '','' @ CHR 0x22 # rest) =
   map_option ((#) (k, v)) (parse_members fuel (CHR 0x22 # rest))"
  by (simp add: encode_basestring_ascii_def scan_string_encoded is_ws_def
      del: parse_members.simps(2) scan_string.simps(2))
     (simp add: scan_string_encoded is_ws_def del: scan_string.simps(2))


lemma parse_members_last:
  "parse_members (Suc fuel)
     (encode_basestring_ascii k @ '':'' @ encode_basestring_ascii v @ ''}'') = Some [(k, v)]"
  by (simp add: encode_basestring_ascii_def scan_string_encoded is_ws_def
      del: parse_members.simps(2) scan_string.simps(2))
     (simp add: scan_string_encoded is_ws_def del: scan_string.simps(2))

lemma encode_Cons: "encode_basestring_ascii s @ rest = CHR 0x22 # concat (map escape_char s) @ CHR 0x22 # rest"
  by (simp add: encode_basestring_ascii_def)

lemma json_loads_through_token:
  "json_loads_strings (through_token m c v) = Some [(''column'', c), (''table'', m), (''value'', v)]"
proof -
  let ?rest3 = "encode_basestring_ascii ''value'' @ '':'' @ encode_basestring_ascii v @ ''}''"
  let ?rest2 = "encode_basestring_ascii ''table'' @ '':'' @ encode_basestring_ascii m @ '','' @ ?rest3"
  let ?rest1 = "encode_basestring_ascii ''column'' @ '':'' @ encode_basestring_ascii c @ '','' @ ?rest2"
  have tok: "through_token m c v = CHR ''{'' # ?rest1"
    by (simp add: through_token_form)
  obtain r3 where r3: "?rest3 = CHR 0x22 # r3"
    by (simp add: encode_basestring_ascii_def)
  obtain r2 where r2: "?rest2 = CHR 0x22 # r2"
    by (simp add: encode_basestring_ascii_def)
  obtain r1 where r1: "?rest1 = CHR 0x22 # r1"
    by (simp add: encode_basestring_ascii_def)
  obtain n where len: "length (through_token m c v) = Suc (Suc (Suc n))"
    by (simp add: tok encode_basestring_ascii_def)
  have p3: "parse_members (Suc f) ?rest3 = Some [(''value'', v)]" for f
    by (rule parse_members_last)
  have p2: "parse_members (Suc (Suc f)) ?rest2 = Some [(''table'', m), (''value'', v)]" for f
    unfolding parse_members_more[of "Suc f" "''table''" m r3, folded r3] p3 by simp
  have p1: "parse_members (Suc (Suc (Suc f))) ?rest1
              = Some [(''column'', c), (''table'', m), (''value'', v)]" for f
    unfolding parse_members_more[of "Suc (Suc f)" "''column''" c r2, folded r2] p2 by simp
  have "json_loads_strings (through_token m c v) = parse_members (length (through_token m c v)) (CHR 0x22 # r1)"
    unfolding json_loads_strings_def tok r1 by (simp add: is_ws_def)
  also have "\<dots> = Some [(''column'', c), (''table'', m), (''value'', v)]"
    unfolding len r1[symmetric] by (rule p1)
  finally show ?thesis .
qed

lemma parse_through_token: "parse_through (through_token m c v) = Some (m, c, v)"
  by (simp add: parse_through_def json_loads_through_token)

text \<open>
  C8. The token of a triple (table, column, value) is the text
  \<^verbatim>\<open>{"column":...,"table":...,"value":...}\<close>: the keys in sorted order, each string in its
  JSON encoding, and nothing between the tokens. Parsing the token gives the triple
  back; two triples that differ (in particular, in their values) have different tokens;
  and so a token is among the tokens of a set of triples exactly when its triple is in
  the set.
\<close>

theorem through_token_roundtrip:
  "through_token m c v =
       ''{'' @ encode_basestring_ascii ''column'' @ '':'' @ encode_basestring_ascii c @ '','' @
       encode_basestring_ascii ''table'' @ '':'' @ encode_basestring_ascii m @ '','' @
       encode_basestring_ascii ''value'' @ '':'' @ encode_basestring_ascii v @ ''}''
   \<and> parse_through (through_token m c v) = Some (m, c, v)
   \<and> (v \<noteq> v' \<longrightarrow> through_token m c v \<noteq> through_token m' c' v')
   \<and> (through_token m c v = through_token m' c' v' \<longrightarrow> m = m' \<and> c = c' \<and> v = v')
   \<and> ((''_through'', through_token m c v)
          \<in> (\<lambda>t. (''_through'', through_token (fst t) (fst (snd t)) (snd (snd t)))) ` T
        \<longleftrightarrow> (m, c, v) \<in> T)"
proof -
  have inj: "m = m' \<and> c = c' \<and> v = v'" if "through_token m c v = through_token m' c' v'"
    for m c v m' c' v'
  proof -
    have "Some (m, c, v) = parse_through (through_token m c v)"
      by (simp add: parse_through_token)
    also have "\<dots> = Some (m', c', v')"
      unfolding that by (rule parse_through_token)
    finally show ?thesis by simp
  qed
  have mem: "(''_through'', through_token m c v)
          \<in> (\<lambda>t. (''_through'', through_token (fst t) (fst (snd t)) (snd (snd t)))) ` T
        \<longleftrightarrow> (m, c, v) \<in> T"
  proof
    assume "(''_through'', through_token m c v)
          \<in> (\<lambda>t. (''_through'', through_token (fst t) (fst (snd t)) (snd (snd t)))) ` T"
    then obtain t where t: "t \<in> T"
      and "through_token m c v = through_token (fst t) (fst (snd t)) (snd (snd t))"
      by auto
    from inj[OF this(2)] have "t = (m, c, v)" by (cases t) simp
    with t show "(m, c, v) \<in> T" by simp
  next
    assume "(m, c, v) \<in> T"
    then show "(''_through'', through_token m c v)
          \<in> (\<lambda>t. (''_through'', through_token (fst t) (fst (snd t)) (snd (snd t)))) ` T"
      by force
  qed
  from through_token_form parse_through_token inj mem show ?thesis by blast
qed

lemma encode_basestring_ascii_plain:
  "encode_basestring_ascii ''tag_id'' = CHR 0x22 # ''tag_id'' @ [CHR 0x22]"
  "encode_basestring_ascii ''book_tags'' = CHR 0x22 # ''book_tags'' @ [CHR 0x22]"
  "encode_basestring_ascii ''3'' = CHR 0x22 # ''3'' @ [CHR 0x22]"
  "encode_basestring_ascii ''4'' = CHR 0x22 # ''4'' @ [CHR 0x22]"
  "encode_basestring_ascii ''column'' = CHR 0x22 # ''column'' @ [CHR 0x22]"
  "encode_basestring_ascii ''table'' = CHR 0x22 # ''table'' @ [CHR 0x22]"
  "encode_basestring_ascii ''value'' = CHR 0x22 # ''value'' @ [CHR 0x22]"
  by (simp_all add: encode_basestring_ascii_def escape_char_def)

theorem through_token_roundtrip_witness:
  \<open>through_token ''book_tags'' ''tag_id'' ''3'' = ''{"column":"tag_id","table":"book_tags","value":"3"}''
   \<and> parse_through (through_token ''book_tags'' ''tag_id'' ''3'') = Some (''book_tags'', ''tag_id'', ''3'')
   \<and> ''3'' \<noteq> ''4''
   \<and> through_token ''book_tags'' ''tag_id'' ''3'' \<noteq> through_token ''book_tags'' ''tag_id'' ''4''
   \<and> (''_through'', through_token ''book_tags'' ''tag_id'' ''3'')
         \<in> (\<lambda>t. (''_through'', through_token (fst t) (fst (snd t)) (snd (snd t))))
             ` {(''book_tags'', ''tag_id'', ''3'')}\<close>
proof -
  note t = through_token_roundtrip[of "''book_tags''" "''tag_id''" "''3''" "''4''" "''book_tags''"
      "''tag_id''" "{(''book_tags'', ''tag_id'', ''3'')}"]
  have n: "''3'' \<noteq> ''4''" by simp
  have a: \<open>through_token ''book_tags'' ''tag_id'' ''3''
            = ''{"column":"tag_id","table":"book_tags","value":"3"}''\<close>
    using t[THEN conjunct1] by (simp add: encode_basestring_ascii_plain)
  have b: "parse_through (through_token ''book_tags'' ''tag_id'' ''3'')
            = Some (''book_tags'', ''tag_id'', ''3'')"
    by (rule t[THEN conjunct2, THEN conjunct1])
  have c: "through_token ''book_tags'' ''tag_id'' ''3'' \<noteq> through_token ''book_tags'' ''tag_id'' ''4''"
    using t n by blast
  have d: "(''_through'', through_token ''book_tags'' ''tag_id'' ''3'')
         \<in> (\<lambda>t. (''_through'', through_token (fst t) (fst (snd t)) (snd (snd t))))
             ` {(''book_tags'', ''tag_id'', ''3'')}"
    using t by blast
  show ?thesis
    by (intro conjI a b n c d)
qed


end
